theory Spec2Isabelle
  imports Main "HOL-Library.Word"
begin

section \<open>The JNI stub bridge of the Get-Together app\<close>

text \<open>
  The source is \<^verbatim>\<open>androidApp/src/main/cpp/jami_jni_stub.cpp\<close>: 68 native methods of
  \<^verbatim>\<open>com.gettogether.app.jami.AndroidJamiBridge\<close>, compiled when \<^verbatim>\<open>JAMI_STUB_ONLY\<close> is
  defined. Every entry point is embedded as a function of the same name. What an entry
  point does beyond returning a value is explicit in its outcome: the lines it hands to
  the Android log, the file-scope variable \<^verbatim>\<open>g_daemonRunning\<close> after the call, and a
  fault where a JNI function is used outside its contract.

  The \<^verbatim>\<open>JNIEnv*\<close> argument is the table of JNI functions; it is represented by the
  functions of the next subsections and is not passed around. The receiver \<^verbatim>\<open>thiz\<close> is
  kept as the first argument of every entry point.
\<close>

subsection \<open>Java references and primitive values\<close>

text \<open>
  A reference is null or points to an object. Only the classes the stub touches are
  represented: strings (by their modified UTF-8 bytes), hash maps (by their entries),
  object arrays (by the name of the element class and the elements) and class objects.
  The C++ types \<^verbatim>\<open>jstring\<close>, \<^verbatim>\<open>jobjectArray\<close> and \<^verbatim>\<open>jclass\<close> are all references, and
  a null pointer is a value of each of them.
\<close>

datatype jobject =
    JNull
  | JString string
  | JHashMap "(jobject \<times> jobject) list"
  | JObjectArray string "jobject list"
  | JClass string

type_synonym jstring = jobject
type_synonym jobjectArray = jobject
type_synonym jclass = jobject

text \<open>\<^verbatim>\<open>jboolean\<close> is an unsigned byte and \<^verbatim>\<open>jint\<close> a 32-bit integer.\<close>

type_synonym jboolean = "8 word"
type_synonym jint = "32 word"

definition JNI_FALSE :: jboolean where
  "JNI_FALSE = 0"

definition JNI_TRUE :: jboolean where
  "JNI_TRUE = 1"

text \<open>A method id names a method of a class by name and signature.\<close>

datatype jmethodID = MethodID string string string

text \<open>The value an entry point hands back to the managed caller, by JNI type letter.\<close>

datatype jvalue =
    V
  | Z jboolean
  | I jint
  | L jobject

subsection \<open>Faults\<close>

text \<open>
  A JNI function either returns, leaves a Java exception pending, or is called outside
  its contract, which the JNI specification leaves undefined (a process abort on
  Android). Both failures end the model's call with \<open>Inl\<close>. Exhaustion of
  memory inside the runtime is not modelled.
\<close>

datatype fault =
    PendingException string
  | UndefinedBehaviour string

definition bind_jni :: "fault + 'a \<Rightarrow> ('a \<Rightarrow> fault + 'b) \<Rightarrow> fault + 'b" where
  "bind_jni m f = (case m of Inl e \<Rightarrow> Inl e | Inr x \<Rightarrow> f x)"

subsection \<open>The JNI functions the stub calls\<close>

text \<open>The classes and the constructor the runtime resolves for the stub.\<close>

definition boot_classes :: "string list" where
  "boot_classes = [''java/lang/Object'', ''java/lang/String'', ''java/util/HashMap'']"

definition FindClass :: "string \<Rightarrow> fault + jclass" where
  "FindClass name =
     (if name \<in> set boot_classes then Inr (JClass name)
      else Inl (PendingException ''java/lang/NoClassDefFoundError''))"

definition GetMethodID :: "jclass \<Rightarrow> string \<Rightarrow> string \<Rightarrow> fault + jmethodID" where
  "GetMethodID clazz name sig =
     (case clazz of
        JClass c \<Rightarrow>
          (if c = ''java/util/HashMap'' \<and> name = ''<init>'' \<and> sig = ''()V''
           then Inr (MethodID c name sig)
           else Inl (PendingException ''java/lang/NoSuchMethodError''))
      | _ \<Rightarrow> Inl (UndefinedBehaviour ''GetMethodID: not a class''))"

definition NewObject :: "jclass \<Rightarrow> jmethodID \<Rightarrow> fault + jobject" where
  "NewObject clazz methodID =
     (if clazz = JClass ''java/util/HashMap''
         \<and> methodID = MethodID ''java/util/HashMap'' ''<init>'' ''()V''
      then Inr (JHashMap [])
      else Inl (UndefinedBehaviour ''NewObject: not a constructor of the class''))"

definition NewObjectArray :: "int \<Rightarrow> jclass \<Rightarrow> jobject \<Rightarrow> fault + jobjectArray" where
  "NewObjectArray len elementClass initialElement =
     (case elementClass of
        JClass c \<Rightarrow>
          (if len < 0 then Inl (PendingException ''java/lang/NegativeArraySizeException'')
           else Inr (JObjectArray c (replicate (nat len) initialElement)))
      | _ \<Rightarrow> Inl (UndefinedBehaviour ''NewObjectArray: not a class''))"

text \<open>Whether a reference may be stored in an array whose elements have class \<open>c\<close>.\<close>

fun assignable :: "jobject \<Rightarrow> string \<Rightarrow> bool" where
  "assignable JNull c = True"
| "assignable (JString s) c = (c = ''java/lang/String'' \<or> c = ''java/lang/Object'')"
| "assignable (JHashMap m) c = (c = ''java/util/HashMap'' \<or> c = ''java/lang/Object'')"
| "assignable (JObjectArray e xs) c = (c = ''java/lang/Object'')"
| "assignable (JClass n) c = (c = ''java/lang/Object'')"

text \<open>
  \<^verbatim>\<open>SetObjectArrayElement\<close> writes into the array it is given; the model returns the
  array after the write.
\<close>

definition SetObjectArrayElement :: "jobjectArray \<Rightarrow> int \<Rightarrow> jobject \<Rightarrow> fault + jobjectArray" where
  "SetObjectArrayElement array index val =
     (case array of
        JObjectArray c xs \<Rightarrow>
          (if index < 0 \<or> int (length xs) \<le> index
           then Inl (PendingException ''java/lang/ArrayIndexOutOfBoundsException'')
           else if assignable val c then Inr (JObjectArray c (xs[nat index := val]))
           else Inl (PendingException ''java/lang/ArrayStoreException''))
      | _ \<Rightarrow> Inl (UndefinedBehaviour ''SetObjectArrayElement: not an array''))"

definition NewStringUTF :: "string \<Rightarrow> jstring" where
  "NewStringUTF bytes = JString bytes"

definition GetStringUTFChars :: "jstring \<Rightarrow> fault + string" where
  "GetStringUTFChars str =
     (case str of
        JString bytes \<Rightarrow> Inr bytes
      | _ \<Rightarrow> Inl (UndefinedBehaviour ''GetStringUTFChars: not a string''))"

definition ReleaseStringUTFChars :: "jstring \<Rightarrow> string \<Rightarrow> fault + unit" where
  "ReleaseStringUTFChars str utf =
     (case str of
        JString bytes \<Rightarrow> Inr ()
      | _ \<Rightarrow> Inl (UndefinedBehaviour ''ReleaseStringUTFChars: not a string''))"

subsection \<open>The Android log\<close>

text \<open>
  A log entry records one call of \<^verbatim>\<open>__android_log_print\<close>: priority, tag, format string
  and the string arguments of the format, not yet formatted.
\<close>

datatype android_LogPriority = ANDROID_LOG_INFO | ANDROID_LOG_WARN | ANDROID_LOG_ERROR

record log_entry =
  priority :: android_LogPriority
  tag :: string
  fmt :: string
  args :: "string list"

definition LOG_TAG :: string where
  "LOG_TAG = ''JamiBridge-JNI''"

definition LOGI :: "string \<Rightarrow> string list \<Rightarrow> log_entry list" where
  "LOGI f as = [\<lparr>priority = ANDROID_LOG_INFO, tag = LOG_TAG, fmt = f, args = as\<rparr>]"

definition LOGW :: "string \<Rightarrow> string list \<Rightarrow> log_entry list" where
  "LOGW f as = [\<lparr>priority = ANDROID_LOG_WARN, tag = LOG_TAG, fmt = f, args = as\<rparr>]"

definition LOGE :: "string \<Rightarrow> string list \<Rightarrow> log_entry list" where
  "LOGE f as = [\<lparr>priority = ANDROID_LOG_ERROR, tag = LOG_TAG, fmt = f, args = as\<rparr>]"

subsection \<open>File-scope state\<close>

definition JAMI_BRIDGE_CLASS :: string where
  "JAMI_BRIDGE_CLASS = ''com/gettogether/app/jami/AndroidJamiBridge''"

text \<open>
  The translation unit has one variable, \<^verbatim>\<open>static bool g_daemonRunning = false\<close>.
\<close>

record globals =
  g_daemonRunning :: bool

definition initial_globals :: globals where
  "initial_globals = \<lparr>g_daemonRunning = False\<rparr>"

text \<open>
  The outcome of a call: the value returned or the fault, the log entries written up to
  the return or the fault, and the globals at that point.
\<close>

record 'a outcome =
  result :: "fault + 'a"
  logged :: "log_entry list"
  globals_after :: globals

subsection \<open>The entry points\<close>

definition nativeInit :: "jobject \<Rightarrow> jstring \<Rightarrow> globals \<Rightarrow> unit outcome" where
  "nativeInit thiz dataPath g =
     (case GetStringUTFChars dataPath of
        Inl e \<Rightarrow> \<lparr>result = Inl e, logged = [], globals_after = g\<rparr>
      | Inr path \<Rightarrow>
          \<lparr>result = ReleaseStringUTFChars dataPath path,
           logged = LOGI ''nativeInit called with path: %s (STUB)'' [path],
           globals_after = g\<rparr>)"

definition nativeStart :: "jobject \<Rightarrow> globals \<Rightarrow> unit outcome" where
  "nativeStart thiz g =
     \<lparr>result = Inr (),
      logged = LOGI ''nativeStart called (STUB)'' [],
      globals_after = g\<lparr>g_daemonRunning := True\<rparr>\<rparr>"

definition nativeStop :: "jobject \<Rightarrow> globals \<Rightarrow> unit outcome" where
  "nativeStop thiz g =
     \<lparr>result = Inr (),
      logged = LOGI ''nativeStop called (STUB)'' [],
      globals_after = g\<lparr>g_daemonRunning := False\<rparr>\<rparr>"

definition nativeIsRunning :: "jobject \<Rightarrow> globals \<Rightarrow> jboolean outcome" where
  "nativeIsRunning thiz g =
     \<lparr>result = Inr (if g_daemonRunning g then JNI_TRUE else JNI_FALSE),
      logged = [],
      globals_after = g\<rparr>"

definition nativeAddAccount :: "jobject \<Rightarrow> jobject \<Rightarrow> globals \<Rightarrow> jstring outcome" where
  "nativeAddAccount thiz details g =
     \<lparr>result = Inr (NewStringUTF ''stub-account-id''),
      logged = LOGI ''nativeAddAccount called (STUB)'' [],
      globals_after = g\<rparr>"

definition nativeRemoveAccount :: "jobject \<Rightarrow> jstring \<Rightarrow> globals \<Rightarrow> unit outcome" where
  "nativeRemoveAccount thiz accountId g =
     \<lparr>result = Inr (),
      logged = LOGI ''nativeRemoveAccount called (STUB)'' [],
      globals_after = g\<rparr>"

definition nativeGetAccountList :: "jobject \<Rightarrow> globals \<Rightarrow> jobjectArray outcome" where
  "nativeGetAccountList thiz g =
     \<lparr>result = bind_jni (FindClass ''java/lang/String'') (\<lambda>stringClass.
          NewObjectArray 0 stringClass JNull),
      logged = LOGI ''nativeGetAccountList called (STUB)'' [],
      globals_after = g\<rparr>"

definition nativeGetAccountDetails :: "jobject \<Rightarrow> jstring \<Rightarrow> globals \<Rightarrow> jobject outcome" where
  "nativeGetAccountDetails thiz accountId g =
     \<lparr>result = bind_jni (FindClass ''java/util/HashMap'') (\<lambda>hashMapClass.
          bind_jni (GetMethodID hashMapClass ''<init>'' ''()V'') (\<lambda>hashMapInit.
          NewObject hashMapClass hashMapInit)),
      logged = LOGI ''nativeGetAccountDetails called (STUB)'' [],
      globals_after = g\<rparr>"

definition nativeGetVolatileAccountDetails :: "jobject \<Rightarrow> jstring \<Rightarrow> globals \<Rightarrow> jobject outcome" where
  "nativeGetVolatileAccountDetails thiz accountId g =
     \<lparr>result = bind_jni (FindClass ''java/util/HashMap'') (\<lambda>hashMapClass.
          bind_jni (GetMethodID hashMapClass ''<init>'' ''()V'') (\<lambda>hashMapInit.
          NewObject hashMapClass hashMapInit)),
      logged = LOGI ''nativeGetVolatileAccountDetails called (STUB)'' [],
      globals_after = g\<rparr>"

definition nativeSetAccountDetails :: "jobject \<Rightarrow> jstring \<Rightarrow> jobject \<Rightarrow> globals \<Rightarrow> unit outcome" where
  "nativeSetAccountDetails thiz accountId details g =
     \<lparr>result = Inr (),
      logged = LOGI ''nativeSetAccountDetails called (STUB)'' [],
      globals_after = g\<rparr>"

definition nativeSetAccountActive :: "jobject \<Rightarrow> jstring \<Rightarrow> jboolean \<Rightarrow> globals \<Rightarrow> unit outcome" where
  "nativeSetAccountActive thiz accountId active g =
     \<lparr>result = Inr (),
      logged = LOGI ''nativeSetAccountActive called (STUB)'' [],
      globals_after = g\<rparr>"

definition nativeUpdateProfile :: "jobject \<Rightarrow> jstring \<Rightarrow> jstring \<Rightarrow> jstring \<Rightarrow> jstring \<Rightarrow> jint \<Rightarrow> globals \<Rightarrow> unit outcome" where
  "nativeUpdateProfile thiz accountId displayName avatar fileType flag g =
     \<lparr>result = Inr (),
      logged = LOGI ''nativeUpdateProfile called (STUB)'' [],
      globals_after = g\<rparr>"

definition nativeRegisterName :: "jobject \<Rightarrow> jstring \<Rightarrow> jstring \<Rightarrow> jstring \<Rightarrow> jstring \<Rightarrow> globals \<Rightarrow> jboolean outcome" where
  "nativeRegisterName thiz accountId name scheme password g =
     \<lparr>result = Inr JNI_FALSE,
      logged = LOGI ''nativeRegisterName called (STUB)'' [],
      globals_after = g\<rparr>"

definition nativeLookupName :: "jobject \<Rightarrow> jstring \<Rightarrow> jstring \<Rightarrow> jstring \<Rightarrow> globals \<Rightarrow> jboolean outcome" where
  "nativeLookupName thiz accountId nameserver name g =
     \<lparr>result = Inr JNI_FALSE,
      logged = LOGI ''nativeLookupName called (STUB)'' [],
      globals_after = g\<rparr>"

definition nativeLookupAddress :: "jobject \<Rightarrow> jstring \<Rightarrow> jstring \<Rightarrow> jstring \<Rightarrow> globals \<Rightarrow> jboolean outcome" where
  "nativeLookupAddress thiz accountId nameserver address g =
     \<lparr>result = Inr JNI_FALSE,
      logged = LOGI ''nativeLookupAddress called (STUB)'' [],
      globals_after = g\<rparr>"

definition nativeExportToFile :: "jobject \<Rightarrow> jstring \<Rightarrow> jstring \<Rightarrow> jstring \<Rightarrow> jstring \<Rightarrow> globals \<Rightarrow> jboolean outcome" where
  "nativeExportToFile thiz accountId destPath scheme password g =
     \<lparr>result = Inr JNI_FALSE,
      logged = LOGI ''nativeExportToFile called (STUB)'' [],
      globals_after = g\<rparr>"

definition nativeGetContacts :: "jobject \<Rightarrow> jstring \<Rightarrow> globals \<Rightarrow> jobjectArray outcome" where
  "nativeGetContacts thiz accountId g =
     \<lparr>result = bind_jni (FindClass ''java/util/HashMap'') (\<lambda>mapClass.
          NewObjectArray 0 mapClass JNull),
      logged = LOGI ''nativeGetContacts called (STUB)'' [],
      globals_after = g\<rparr>"

definition nativeAddContact :: "jobject \<Rightarrow> jstring \<Rightarrow> jstring \<Rightarrow> globals \<Rightarrow> unit outcome" where
  "nativeAddContact thiz accountId uri g =
     \<lparr>result = Inr (),
      logged = LOGI ''nativeAddContact called (STUB)'' [],
      globals_after = g\<rparr>"

definition nativeRemoveContact :: "jobject \<Rightarrow> jstring \<Rightarrow> jstring \<Rightarrow> jboolean \<Rightarrow> globals \<Rightarrow> unit outcome" where
  "nativeRemoveContact thiz accountId uri ban g =
     \<lparr>result = Inr (),
      logged = LOGI ''nativeRemoveContact called (STUB)'' [],
      globals_after = g\<rparr>"

definition nativeGetContactDetails :: "jobject \<Rightarrow> jstring \<Rightarrow> jstring \<Rightarrow> globals \<Rightarrow> jobject outcome" where
  "nativeGetContactDetails thiz accountId uri g =
     \<lparr>result = bind_jni (FindClass ''java/util/HashMap'') (\<lambda>hashMapClass.
          bind_jni (GetMethodID hashMapClass ''<init>'' ''()V'') (\<lambda>hashMapInit.
          NewObject hashMapClass hashMapInit)),
      logged = LOGI ''nativeGetContactDetails called (STUB)'' [],
      globals_after = g\<rparr>"

definition nativeAcceptTrustRequest :: "jobject \<Rightarrow> jstring \<Rightarrow> jstring \<Rightarrow> globals \<Rightarrow> unit outcome" where
  "nativeAcceptTrustRequest thiz accountId from_uri g =
     \<lparr>result = Inr (),
      logged = LOGI ''nativeAcceptTrustRequest called (STUB)'' [],
      globals_after = g\<rparr>"

definition nativeDiscardTrustRequest :: "jobject \<Rightarrow> jstring \<Rightarrow> jstring \<Rightarrow> globals \<Rightarrow> unit outcome" where
  "nativeDiscardTrustRequest thiz accountId from_uri g =
     \<lparr>result = Inr (),
      logged = LOGI ''nativeDiscardTrustRequest called (STUB)'' [],
      globals_after = g\<rparr>"

definition nativeGetTrustRequests :: "jobject \<Rightarrow> jstring \<Rightarrow> globals \<Rightarrow> jobjectArray outcome" where
  "nativeGetTrustRequests thiz accountId g =
     \<lparr>result = bind_jni (FindClass ''java/util/HashMap'') (\<lambda>mapClass.
          NewObjectArray 0 mapClass JNull),
      logged = LOGI ''nativeGetTrustRequests called (STUB)'' [],
      globals_after = g\<rparr>"

definition nativeGetConversations :: "jobject \<Rightarrow> jstring \<Rightarrow> globals \<Rightarrow> jobjectArray outcome" where
  "nativeGetConversations thiz accountId g =
     \<lparr>result = bind_jni (FindClass ''java/lang/String'') (\<lambda>stringClass.
          NewObjectArray 0 stringClass JNull),
      logged = LOGI ''nativeGetConversations called (STUB)'' [],
      globals_after = g\<rparr>"

definition nativeStartConversation :: "jobject \<Rightarrow> jstring \<Rightarrow> globals \<Rightarrow> jstring outcome" where
  "nativeStartConversation thiz accountId g =
     \<lparr>result = Inr (NewStringUTF ''stub-conversation-id''),
      logged = LOGI ''nativeStartConversation called (STUB)'' [],
      globals_after = g\<rparr>"

definition nativeRemoveConversation :: "jobject \<Rightarrow> jstring \<Rightarrow> jstring \<Rightarrow> globals \<Rightarrow> jboolean outcome" where
  "nativeRemoveConversation thiz accountId conversationId g =
     \<lparr>result = Inr JNI_TRUE,
      logged = LOGI ''nativeRemoveConversation called (STUB)'' [],
      globals_after = g\<rparr>"

definition nativeConversationInfos :: "jobject \<Rightarrow> jstring \<Rightarrow> jstring \<Rightarrow> globals \<Rightarrow> jobject outcome" where
  "nativeConversationInfos thiz accountId conversationId g =
     \<lparr>result = bind_jni (FindClass ''java/util/HashMap'') (\<lambda>hashMapClass.
          bind_jni (GetMethodID hashMapClass ''<init>'' ''()V'') (\<lambda>hashMapInit.
          NewObject hashMapClass hashMapInit)),
      logged = LOGI ''nativeConversationInfos called (STUB)'' [],
      globals_after = g\<rparr>"

definition nativeUpdateConversationInfos :: "jobject \<Rightarrow> jstring \<Rightarrow> jstring \<Rightarrow> jobject \<Rightarrow> globals \<Rightarrow> unit outcome" where
  "nativeUpdateConversationInfos thiz accountId conversationId infos g =
     \<lparr>result = Inr (),
      logged = LOGI ''nativeUpdateConversationInfos called (STUB)'' [],
      globals_after = g\<rparr>"

definition nativeGetConversationMembers :: "jobject \<Rightarrow> jstring \<Rightarrow> jstring \<Rightarrow> globals \<Rightarrow> jobjectArray outcome" where
  "nativeGetConversationMembers thiz accountId conversationId g =
     \<lparr>result = bind_jni (FindClass ''java/util/HashMap'') (\<lambda>mapClass.
          NewObjectArray 0 mapClass JNull),
      logged = LOGI ''nativeGetConversationMembers called (STUB)'' [],
      globals_after = g\<rparr>"

definition nativeAddConversationMember :: "jobject \<Rightarrow> jstring \<Rightarrow> jstring \<Rightarrow> jstring \<Rightarrow> globals \<Rightarrow> unit outcome" where
  "nativeAddConversationMember thiz accountId conversationId contactUri g =
     \<lparr>result = Inr (),
      logged = LOGI ''nativeAddConversationMember called (STUB)'' [],
      globals_after = g\<rparr>"

definition nativeRemoveConversationMember :: "jobject \<Rightarrow> jstring \<Rightarrow> jstring \<Rightarrow> jstring \<Rightarrow> globals \<Rightarrow> unit outcome" where
  "nativeRemoveConversationMember thiz accountId conversationId contactUri g =
     \<lparr>result = Inr (),
      logged = LOGI ''nativeRemoveConversationMember called (STUB)'' [],
      globals_after = g\<rparr>"

definition nativeAcceptConversationRequest :: "jobject \<Rightarrow> jstring \<Rightarrow> jstring \<Rightarrow> globals \<Rightarrow> unit outcome" where
  "nativeAcceptConversationRequest thiz accountId conversationId g =
     \<lparr>result = Inr (),
      logged = LOGI ''nativeAcceptConversationRequest called (STUB)'' [],
      globals_after = g\<rparr>"

definition nativeDeclineConversationRequest :: "jobject \<Rightarrow> jstring \<Rightarrow> jstring \<Rightarrow> globals \<Rightarrow> unit outcome" where
  "nativeDeclineConversationRequest thiz accountId conversationId g =
     \<lparr>result = Inr (),
      logged = LOGI ''nativeDeclineConversationRequest called (STUB)'' [],
      globals_after = g\<rparr>"

definition nativeGetConversationRequests :: "jobject \<Rightarrow> jstring \<Rightarrow> globals \<Rightarrow> jobjectArray outcome" where
  "nativeGetConversationRequests thiz accountId g =
     \<lparr>result = bind_jni (FindClass ''java/util/HashMap'') (\<lambda>mapClass.
          NewObjectArray 0 mapClass JNull),
      logged = LOGI ''nativeGetConversationRequests called (STUB)'' [],
      globals_after = g\<rparr>"

definition nativeSendMessage :: "jobject \<Rightarrow> jstring \<Rightarrow> jstring \<Rightarrow> jstring \<Rightarrow> jstring \<Rightarrow> jint \<Rightarrow> globals \<Rightarrow> unit outcome" where
  "nativeSendMessage thiz accountId conversationId message replyTo flag g =
     \<lparr>result = Inr (),
      logged = LOGI ''nativeSendMessage called (STUB)'' [],
      globals_after = g\<rparr>"

definition nativeLoadConversation :: "jobject \<Rightarrow> jstring \<Rightarrow> jstring \<Rightarrow> jstring \<Rightarrow> jint \<Rightarrow> globals \<Rightarrow> jint outcome" where
  "nativeLoadConversation thiz accountId conversationId fromMessage n g =
     \<lparr>result = Inr 0,
      logged = LOGI ''nativeLoadConversation called (STUB)'' [],
      globals_after = g\<rparr>"

definition nativeSetIsComposing :: "jobject \<Rightarrow> jstring \<Rightarrow> jstring \<Rightarrow> jboolean \<Rightarrow> globals \<Rightarrow> unit outcome" where
  "nativeSetIsComposing thiz accountId conversationUri isWriting g =
     \<lparr>result = Inr (),
      logged = LOGI ''nativeSetIsComposing called (STUB)'' [],
      globals_after = g\<rparr>"

definition nativeSetMessageDisplayed :: "jobject \<Rightarrow> jstring \<Rightarrow> jstring \<Rightarrow> jstring \<Rightarrow> jint \<Rightarrow> globals \<Rightarrow> jboolean outcome" where
  "nativeSetMessageDisplayed thiz accountId conversationUri messageId status g =
     \<lparr>result = Inr JNI_TRUE,
      logged = LOGI ''nativeSetMessageDisplayed called (STUB)'' [],
      globals_after = g\<rparr>"

definition nativePlaceCallWithMedia :: "jobject \<Rightarrow> jstring \<Rightarrow> jstring \<Rightarrow> jobjectArray \<Rightarrow> globals \<Rightarrow> jstring outcome" where
  "nativePlaceCallWithMedia thiz accountId to mediaList g =
     \<lparr>result = Inr (NewStringUTF ''stub-call-id''),
      logged = LOGI ''nativePlaceCallWithMedia called (STUB)'' [],
      globals_after = g\<rparr>"

definition nativeAccept :: "jobject \<Rightarrow> jstring \<Rightarrow> jstring \<Rightarrow> globals \<Rightarrow> unit outcome" where
  "nativeAccept thiz accountId callId g =
     \<lparr>result = Inr (),
      logged = LOGI ''nativeAccept called (STUB)'' [],
      globals_after = g\<rparr>"

definition nativeAcceptWithMedia :: "jobject \<Rightarrow> jstring \<Rightarrow> jstring \<Rightarrow> jobjectArray \<Rightarrow> globals \<Rightarrow> unit outcome" where
  "nativeAcceptWithMedia thiz accountId callId mediaList g =
     \<lparr>result = Inr (),
      logged = LOGI ''nativeAcceptWithMedia called (STUB)'' [],
      globals_after = g\<rparr>"

definition nativeRefuse :: "jobject \<Rightarrow> jstring \<Rightarrow> jstring \<Rightarrow> globals \<Rightarrow> unit outcome" where
  "nativeRefuse thiz accountId callId g =
     \<lparr>result = Inr (),
      logged = LOGI ''nativeRefuse called (STUB)'' [],
      globals_after = g\<rparr>"

definition nativeHangUp :: "jobject \<Rightarrow> jstring \<Rightarrow> jstring \<Rightarrow> globals \<Rightarrow> unit outcome" where
  "nativeHangUp thiz accountId callId g =
     \<lparr>result = Inr (),
      logged = LOGI ''nativeHangUp called (STUB)'' [],
      globals_after = g\<rparr>"

definition nativeHold :: "jobject \<Rightarrow> jstring \<Rightarrow> jstring \<Rightarrow> globals \<Rightarrow> unit outcome" where
  "nativeHold thiz accountId callId g =
     \<lparr>result = Inr (),
      logged = LOGI ''nativeHold called (STUB)'' [],
      globals_after = g\<rparr>"

definition nativeUnhold :: "jobject \<Rightarrow> jstring \<Rightarrow> jstring \<Rightarrow> globals \<Rightarrow> unit outcome" where
  "nativeUnhold thiz accountId callId g =
     \<lparr>result = Inr (),
      logged = LOGI ''nativeUnhold called (STUB)'' [],
      globals_after = g\<rparr>"

definition nativeMuteLocalMedia :: "jobject \<Rightarrow> jstring \<Rightarrow> jstring \<Rightarrow> jstring \<Rightarrow> jboolean \<Rightarrow> globals \<Rightarrow> unit outcome" where
  "nativeMuteLocalMedia thiz accountId callId mediaType mute g =
     \<lparr>result = Inr (),
      logged = LOGI ''nativeMuteLocalMedia called (STUB)'' [],
      globals_after = g\<rparr>"

definition nativeGetCallDetails :: "jobject \<Rightarrow> jstring \<Rightarrow> jstring \<Rightarrow> globals \<Rightarrow> jobject outcome" where
  "nativeGetCallDetails thiz accountId callId g =
     \<lparr>result = bind_jni (FindClass ''java/util/HashMap'') (\<lambda>hashMapClass.
          bind_jni (GetMethodID hashMapClass ''<init>'' ''()V'') (\<lambda>hashMapInit.
          NewObject hashMapClass hashMapInit)),
      logged = LOGI ''nativeGetCallDetails called (STUB)'' [],
      globals_after = g\<rparr>"

definition nativeGetCallList :: "jobject \<Rightarrow> jstring \<Rightarrow> globals \<Rightarrow> jobjectArray outcome" where
  "nativeGetCallList thiz accountId g =
     \<lparr>result = bind_jni (FindClass ''java/lang/String'') (\<lambda>stringClass.
          NewObjectArray 0 stringClass JNull),
      logged = LOGI ''nativeGetCallList called (STUB)'' [],
      globals_after = g\<rparr>"

definition nativeCreateConfFromParticipantList :: "jobject \<Rightarrow> jstring \<Rightarrow> jobjectArray \<Rightarrow> globals \<Rightarrow> unit outcome" where
  "nativeCreateConfFromParticipantList thiz accountId participants g =
     \<lparr>result = Inr (),
      logged = LOGI ''nativeCreateConfFromParticipantList called (STUB)'' [],
      globals_after = g\<rparr>"

definition nativeJoinParticipant :: "jobject \<Rightarrow> jstring \<Rightarrow> jstring \<Rightarrow> jstring \<Rightarrow> jstring \<Rightarrow> globals \<Rightarrow> unit outcome" where
  "nativeJoinParticipant thiz accountId callId1 accountId2 callId2 g =
     \<lparr>result = Inr (),
      logged = LOGI ''nativeJoinParticipant called (STUB)'' [],
      globals_after = g\<rparr>"

definition nativeAddParticipant :: "jobject \<Rightarrow> jstring \<Rightarrow> jstring \<Rightarrow> jstring \<Rightarrow> jstring \<Rightarrow> globals \<Rightarrow> unit outcome" where
  "nativeAddParticipant thiz accountId callId account2Id confId g =
     \<lparr>result = Inr (),
      logged = LOGI ''nativeAddParticipant called (STUB)'' [],
      globals_after = g\<rparr>"

definition nativeHangUpConference :: "jobject \<Rightarrow> jstring \<Rightarrow> jstring \<Rightarrow> globals \<Rightarrow> unit outcome" where
  "nativeHangUpConference thiz accountId confId g =
     \<lparr>result = Inr (),
      logged = LOGI ''nativeHangUpConference called (STUB)'' [],
      globals_after = g\<rparr>"

definition nativeGetConferenceDetails :: "jobject \<Rightarrow> jstring \<Rightarrow> jstring \<Rightarrow> globals \<Rightarrow> jobject outcome" where
  "nativeGetConferenceDetails thiz accountId confId g =
     \<lparr>result = bind_jni (FindClass ''java/util/HashMap'') (\<lambda>hashMapClass.
          bind_jni (GetMethodID hashMapClass ''<init>'' ''()V'') (\<lambda>hashMapInit.
          NewObject hashMapClass hashMapInit)),
      logged = LOGI ''nativeGetConferenceDetails called (STUB)'' [],
      globals_after = g\<rparr>"

definition nativeGetParticipantList :: "jobject \<Rightarrow> jstring \<Rightarrow> jstring \<Rightarrow> globals \<Rightarrow> jobjectArray outcome" where
  "nativeGetParticipantList thiz accountId confId g =
     \<lparr>result = bind_jni (FindClass ''java/lang/String'') (\<lambda>stringClass.
          NewObjectArray 0 stringClass JNull),
      logged = LOGI ''nativeGetParticipantList called (STUB)'' [],
      globals_after = g\<rparr>"

definition nativeGetConferenceInfos :: "jobject \<Rightarrow> jstring \<Rightarrow> jstring \<Rightarrow> globals \<Rightarrow> jobjectArray outcome" where
  "nativeGetConferenceInfos thiz accountId confId g =
     \<lparr>result = bind_jni (FindClass ''java/util/HashMap'') (\<lambda>mapClass.
          NewObjectArray 0 mapClass JNull),
      logged = LOGI ''nativeGetConferenceInfos called (STUB)'' [],
      globals_after = g\<rparr>"

definition nativeSetConferenceLayout :: "jobject \<Rightarrow> jstring \<Rightarrow> jstring \<Rightarrow> jint \<Rightarrow> globals \<Rightarrow> unit outcome" where
  "nativeSetConferenceLayout thiz accountId confId layout g =
     \<lparr>result = Inr (),
      logged = LOGI ''nativeSetConferenceLayout called (STUB)'' [],
      globals_after = g\<rparr>"

definition nativeMuteParticipant :: "jobject \<Rightarrow> jstring \<Rightarrow> jstring \<Rightarrow> jstring \<Rightarrow> jboolean \<Rightarrow> globals \<Rightarrow> unit outcome" where
  "nativeMuteParticipant thiz accountId confId peerId state g =
     \<lparr>result = Inr (),
      logged = LOGI ''nativeMuteParticipant called (STUB)'' [],
      globals_after = g\<rparr>"

definition nativeHangupParticipant :: "jobject \<Rightarrow> jstring \<Rightarrow> jstring \<Rightarrow> jstring \<Rightarrow> jstring \<Rightarrow> globals \<Rightarrow> unit outcome" where
  "nativeHangupParticipant thiz accountId confId accountUri deviceId g =
     \<lparr>result = Inr (),
      logged = LOGI ''nativeHangupParticipant called (STUB)'' [],
      globals_after = g\<rparr>"

definition nativeGetVideoDeviceList :: "jobject \<Rightarrow> globals \<Rightarrow> jobjectArray outcome" where
  "nativeGetVideoDeviceList thiz g =
     \<lparr>result = bind_jni (FindClass ''java/lang/String'') (\<lambda>stringClass.
          bind_jni (NewObjectArray 2 stringClass JNull) (\<lambda>result0.
          bind_jni (SetObjectArrayElement result0 0 (NewStringUTF ''camera://0'')) (\<lambda>result1.
          SetObjectArrayElement result1 1 (NewStringUTF ''camera://1'')))),
      logged = LOGI ''nativeGetVideoDeviceList called (STUB)'' [],
      globals_after = g\<rparr>"

definition nativeGetCurrentVideoDevice :: "jobject \<Rightarrow> globals \<Rightarrow> jstring outcome" where
  "nativeGetCurrentVideoDevice thiz g =
     \<lparr>result = Inr (NewStringUTF ''camera://0''),
      logged = LOGI ''nativeGetCurrentVideoDevice called (STUB)'' [],
      globals_after = g\<rparr>"

definition nativeSetVideoDevice :: "jobject \<Rightarrow> jstring \<Rightarrow> globals \<Rightarrow> unit outcome" where
  "nativeSetVideoDevice thiz deviceId g =
     \<lparr>result = Inr (),
      logged = LOGI ''nativeSetVideoDevice called (STUB)'' [],
      globals_after = g\<rparr>"

definition nativeStartVideo :: "jobject \<Rightarrow> globals \<Rightarrow> unit outcome" where
  "nativeStartVideo thiz g =
     \<lparr>result = Inr (),
      logged = LOGI ''nativeStartVideo called (STUB)'' [],
      globals_after = g\<rparr>"

definition nativeStopVideo :: "jobject \<Rightarrow> globals \<Rightarrow> unit outcome" where
  "nativeStopVideo thiz g =
     \<lparr>result = Inr (),
      logged = LOGI ''nativeStopVideo called (STUB)'' [],
      globals_after = g\<rparr>"

definition nativeSwitchInput :: "jobject \<Rightarrow> jstring \<Rightarrow> jstring \<Rightarrow> jstring \<Rightarrow> globals \<Rightarrow> unit outcome" where
  "nativeSwitchInput thiz accountId callId resource g =
     \<lparr>result = Inr (),
      logged = LOGI ''nativeSwitchInput called (STUB)'' [],
      globals_after = g\<rparr>"

definition nativeGetAudioOutputDeviceList :: "jobject \<Rightarrow> globals \<Rightarrow> jobjectArray outcome" where
  "nativeGetAudioOutputDeviceList thiz g =
     \<lparr>result = bind_jni (FindClass ''java/lang/String'') (\<lambda>stringClass.
          bind_jni (NewObjectArray 2 stringClass JNull) (\<lambda>result0.
          bind_jni (SetObjectArrayElement result0 0 (NewStringUTF ''Speaker'')) (\<lambda>result1.
          SetObjectArrayElement result1 1 (NewStringUTF ''Earpiece'')))),
      logged = LOGI ''nativeGetAudioOutputDeviceList called (STUB)'' [],
      globals_after = g\<rparr>"

definition nativeGetAudioInputDeviceList :: "jobject \<Rightarrow> globals \<Rightarrow> jobjectArray outcome" where
  "nativeGetAudioInputDeviceList thiz g =
     \<lparr>result = bind_jni (FindClass ''java/lang/String'') (\<lambda>stringClass.
          bind_jni (NewObjectArray 1 stringClass JNull) (\<lambda>result0.
          SetObjectArrayElement result0 0 (NewStringUTF ''Microphone''))),
      logged = LOGI ''nativeGetAudioInputDeviceList called (STUB)'' [],
      globals_after = g\<rparr>"

definition nativeSetAudioOutputDevice :: "jobject \<Rightarrow> jint \<Rightarrow> globals \<Rightarrow> unit outcome" where
  "nativeSetAudioOutputDevice thiz index g =
     \<lparr>result = Inr (),
      logged = LOGI ''nativeSetAudioOutputDevice called (STUB)'' [],
      globals_after = g\<rparr>"

definition nativeSetAudioInputDevice :: "jobject \<Rightarrow> jint \<Rightarrow> globals \<Rightarrow> unit outcome" where
  "nativeSetAudioInputDevice thiz index g =
     \<lparr>result = Inr (),
      logged = LOGI ''nativeSetAudioInputDevice called (STUB)'' [],
      globals_after = g\<rparr>"

subsection \<open>Calls from the managed side\<close>

text \<open>
  A call names an entry point and carries its arguments, in the order of the C++
  parameter list after \<^verbatim>\<open>env\<close> and \<^verbatim>\<open>thiz\<close>. The calls are grouped as the source
  file groups its entry points.
\<close>

datatype lifecycle_call =
    NativeInit jstring
  | NativeStart
  | NativeStop
  | NativeIsRunning

datatype account_call =
    NativeAddAccount jobject
  | NativeRemoveAccount jstring
  | NativeGetAccountList
  | NativeGetAccountDetails jstring
  | NativeGetVolatileAccountDetails jstring
  | NativeSetAccountDetails jstring jobject
  | NativeSetAccountActive jstring jboolean
  | NativeUpdateProfile jstring jstring jstring jstring jint
  | NativeRegisterName jstring jstring jstring jstring
  | NativeLookupName jstring jstring jstring
  | NativeLookupAddress jstring jstring jstring
  | NativeExportToFile jstring jstring jstring jstring

datatype contacts_call =
    NativeGetContacts jstring
  | NativeAddContact jstring jstring
  | NativeRemoveContact jstring jstring jboolean
  | NativeGetContactDetails jstring jstring
  | NativeAcceptTrustRequest jstring jstring
  | NativeDiscardTrustRequest jstring jstring
  | NativeGetTrustRequests jstring

datatype conversations_call =
    NativeGetConversations jstring
  | NativeStartConversation jstring
  | NativeRemoveConversation jstring jstring
  | NativeConversationInfos jstring jstring
  | NativeUpdateConversationInfos jstring jstring jobject
  | NativeGetConversationMembers jstring jstring
  | NativeAddConversationMember jstring jstring jstring
  | NativeRemoveConversationMember jstring jstring jstring
  | NativeAcceptConversationRequest jstring jstring
  | NativeDeclineConversationRequest jstring jstring
  | NativeGetConversationRequests jstring

datatype messaging_call =
    NativeSendMessage jstring jstring jstring jstring jint
  | NativeLoadConversation jstring jstring jstring jint
  | NativeSetIsComposing jstring jstring jboolean
  | NativeSetMessageDisplayed jstring jstring jstring jint

datatype calls_call =
    NativePlaceCallWithMedia jstring jstring jobjectArray
  | NativeAccept jstring jstring
  | NativeAcceptWithMedia jstring jstring jobjectArray
  | NativeRefuse jstring jstring
  | NativeHangUp jstring jstring
  | NativeHold jstring jstring
  | NativeUnhold jstring jstring
  | NativeMuteLocalMedia jstring jstring jstring jboolean
  | NativeGetCallDetails jstring jstring
  | NativeGetCallList jstring

datatype conference_call =
    NativeCreateConfFromParticipantList jstring jobjectArray
  | NativeJoinParticipant jstring jstring jstring jstring
  | NativeAddParticipant jstring jstring jstring jstring
  | NativeHangUpConference jstring jstring
  | NativeGetConferenceDetails jstring jstring
  | NativeGetParticipantList jstring jstring
  | NativeGetConferenceInfos jstring jstring
  | NativeSetConferenceLayout jstring jstring jint
  | NativeMuteParticipant jstring jstring jstring jboolean
  | NativeHangupParticipant jstring jstring jstring jstring

datatype video_call =
    NativeGetVideoDeviceList
  | NativeGetCurrentVideoDevice
  | NativeSetVideoDevice jstring
  | NativeStartVideo
  | NativeStopVideo
  | NativeSwitchInput jstring jstring jstring

datatype audio_call =
    NativeGetAudioOutputDeviceList
  | NativeGetAudioInputDeviceList
  | NativeSetAudioOutputDevice jint
  | NativeSetAudioInputDevice jint

datatype call =
    Lifecycle lifecycle_call
  | Account account_call
  | Contacts contacts_call
  | Conversations conversations_call
  | Messaging messaging_call
  | Calls calls_call
  | Conference conference_call
  | Video video_call
  | Audio audio_call

text \<open>The returned value as a \<open>jvalue\<close>; the rest of the outcome is kept.\<close>

definition returning :: "('a \<Rightarrow> jvalue) \<Rightarrow> 'a outcome \<Rightarrow> jvalue outcome" where
  "returning wrap out =
     \<lparr>result = map_sum id wrap (result out),
      logged = logged out,
      globals_after = globals_after out\<rparr>"

text \<open>
  The runtime enters the native method a call names, with the arguments of the call.
\<close>

primrec invoke_lifecycle :: "lifecycle_call \<Rightarrow> jobject \<Rightarrow> globals \<Rightarrow> jvalue outcome" where
  "invoke_lifecycle (NativeInit dataPath) thiz g =
     returning (\<lambda>u. V) (nativeInit thiz dataPath g)"
| "invoke_lifecycle NativeStart thiz g =
     returning (\<lambda>u. V) (nativeStart thiz g)"
| "invoke_lifecycle NativeStop thiz g =
     returning (\<lambda>u. V) (nativeStop thiz g)"
| "invoke_lifecycle NativeIsRunning thiz g =
     returning Z (nativeIsRunning thiz g)"

primrec invoke_account :: "account_call \<Rightarrow> jobject \<Rightarrow> globals \<Rightarrow> jvalue outcome" where
  "invoke_account (NativeAddAccount details) thiz g =
     returning L (nativeAddAccount thiz details g)"
| "invoke_account (NativeRemoveAccount accountId) thiz g =
     returning (\<lambda>u. V) (nativeRemoveAccount thiz accountId g)"
| "invoke_account NativeGetAccountList thiz g =
     returning L (nativeGetAccountList thiz g)"
| "invoke_account (NativeGetAccountDetails accountId) thiz g =
     returning L (nativeGetAccountDetails thiz accountId g)"
| "invoke_account (NativeGetVolatileAccountDetails accountId) thiz g =
     returning L (nativeGetVolatileAccountDetails thiz accountId g)"
| "invoke_account (NativeSetAccountDetails accountId details) thiz g =
     returning (\<lambda>u. V) (nativeSetAccountDetails thiz accountId details g)"
| "invoke_account (NativeSetAccountActive accountId active) thiz g =
     returning (\<lambda>u. V) (nativeSetAccountActive thiz accountId active g)"
| "invoke_account (NativeUpdateProfile accountId displayName avatar fileType flag) thiz g =
     returning (\<lambda>u. V) (nativeUpdateProfile thiz accountId displayName avatar fileType flag g)"
| "invoke_account (NativeRegisterName accountId name scheme password) thiz g =
     returning Z (nativeRegisterName thiz accountId name scheme password g)"
| "invoke_account (NativeLookupName accountId nameserver name) thiz g =
     returning Z (nativeLookupName thiz accountId nameserver name g)"
| "invoke_account (NativeLookupAddress accountId nameserver address) thiz g =
     returning Z (nativeLookupAddress thiz accountId nameserver address g)"
| "invoke_account (NativeExportToFile accountId destPath scheme password) thiz g =
     returning Z (nativeExportToFile thiz accountId destPath scheme password g)"

primrec invoke_contacts :: "contacts_call \<Rightarrow> jobject \<Rightarrow> globals \<Rightarrow> jvalue outcome" where
  "invoke_contacts (NativeGetContacts accountId) thiz g =
     returning L (nativeGetContacts thiz accountId g)"
| "invoke_contacts (NativeAddContact accountId uri) thiz g =
     returning (\<lambda>u. V) (nativeAddContact thiz accountId uri g)"
| "invoke_contacts (NativeRemoveContact accountId uri ban) thiz g =
     returning (\<lambda>u. V) (nativeRemoveContact thiz accountId uri ban g)"
| "invoke_contacts (NativeGetContactDetails accountId uri) thiz g =
     returning L (nativeGetContactDetails thiz accountId uri g)"
| "invoke_contacts (NativeAcceptTrustRequest accountId from_uri) thiz g =
     returning (\<lambda>u. V) (nativeAcceptTrustRequest thiz accountId from_uri g)"
| "invoke_contacts (NativeDiscardTrustRequest accountId from_uri) thiz g =
     returning (\<lambda>u. V) (nativeDiscardTrustRequest thiz accountId from_uri g)"
| "invoke_contacts (NativeGetTrustRequests accountId) thiz g =
     returning L (nativeGetTrustRequests thiz accountId g)"

primrec invoke_conversations :: "conversations_call \<Rightarrow> jobject \<Rightarrow> globals \<Rightarrow> jvalue outcome" where
  "invoke_conversations (NativeGetConversations accountId) thiz g =
     returning L (nativeGetConversations thiz accountId g)"
| "invoke_conversations (NativeStartConversation accountId) thiz g =
     returning L (nativeStartConversation thiz accountId g)"
| "invoke_conversations (NativeRemoveConversation accountId conversationId) thiz g =
     returning Z (nativeRemoveConversation thiz accountId conversationId g)"
| "invoke_conversations (NativeConversationInfos accountId conversationId) thiz g =
     returning L (nativeConversationInfos thiz accountId conversationId g)"
| "invoke_conversations (NativeUpdateConversationInfos accountId conversationId infos) thiz g =
     returning (\<lambda>u. V) (nativeUpdateConversationInfos thiz accountId conversationId infos g)"
| "invoke_conversations (NativeGetConversationMembers accountId conversationId) thiz g =
     returning L (nativeGetConversationMembers thiz accountId conversationId g)"
| "invoke_conversations (NativeAddConversationMember accountId conversationId contactUri) thiz g =
     returning (\<lambda>u. V) (nativeAddConversationMember thiz accountId conversationId contactUri g)"
| "invoke_conversations (NativeRemoveConversationMember accountId conversationId contactUri) thiz g =
     returning (\<lambda>u. V) (nativeRemoveConversationMember thiz accountId conversationId contactUri g)"
| "invoke_conversations (NativeAcceptConversationRequest accountId conversationId) thiz g =
     returning (\<lambda>u. V) (nativeAcceptConversationRequest thiz accountId conversationId g)"
| "invoke_conversations (NativeDeclineConversationRequest accountId conversationId) thiz g =
     returning (\<lambda>u. V) (nativeDeclineConversationRequest thiz accountId conversationId g)"
| "invoke_conversations (NativeGetConversationRequests accountId) thiz g =
     returning L (nativeGetConversationRequests thiz accountId g)"

primrec invoke_messaging :: "messaging_call \<Rightarrow> jobject \<Rightarrow> globals \<Rightarrow> jvalue outcome" where
  "invoke_messaging (NativeSendMessage accountId conversationId message replyTo flag) thiz g =
     returning (\<lambda>u. V) (nativeSendMessage thiz accountId conversationId message replyTo flag g)"
| "invoke_messaging (NativeLoadConversation accountId conversationId fromMessage n) thiz g =
     returning I (nativeLoadConversation thiz accountId conversationId fromMessage n g)"
| "invoke_messaging (NativeSetIsComposing accountId conversationUri isWriting) thiz g =
     returning (\<lambda>u. V) (nativeSetIsComposing thiz accountId conversationUri isWriting g)"
| "invoke_messaging (NativeSetMessageDisplayed accountId conversationUri messageId status) thiz g =
     returning Z (nativeSetMessageDisplayed thiz accountId conversationUri messageId status g)"

primrec invoke_calls :: "calls_call \<Rightarrow> jobject \<Rightarrow> globals \<Rightarrow> jvalue outcome" where
  "invoke_calls (NativePlaceCallWithMedia accountId to mediaList) thiz g =
     returning L (nativePlaceCallWithMedia thiz accountId to mediaList g)"
| "invoke_calls (NativeAccept accountId callId) thiz g =
     returning (\<lambda>u. V) (nativeAccept thiz accountId callId g)"
| "invoke_calls (NativeAcceptWithMedia accountId callId mediaList) thiz g =
     returning (\<lambda>u. V) (nativeAcceptWithMedia thiz accountId callId mediaList g)"
| "invoke_calls (NativeRefuse accountId callId) thiz g =
     returning (\<lambda>u. V) (nativeRefuse thiz accountId callId g)"
| "invoke_calls (NativeHangUp accountId callId) thiz g =
     returning (\<lambda>u. V) (nativeHangUp thiz accountId callId g)"
| "invoke_calls (NativeHold accountId callId) thiz g =
     returning (\<lambda>u. V) (nativeHold thiz accountId callId g)"
| "invoke_calls (NativeUnhold accountId callId) thiz g =
     returning (\<lambda>u. V) (nativeUnhold thiz accountId callId g)"
| "invoke_calls (NativeMuteLocalMedia accountId callId mediaType mute) thiz g =
     returning (\<lambda>u. V) (nativeMuteLocalMedia thiz accountId callId mediaType mute g)"
| "invoke_calls (NativeGetCallDetails accountId callId) thiz g =
     returning L (nativeGetCallDetails thiz accountId callId g)"
| "invoke_calls (NativeGetCallList accountId) thiz g =
     returning L (nativeGetCallList thiz accountId g)"

primrec invoke_conference :: "conference_call \<Rightarrow> jobject \<Rightarrow> globals \<Rightarrow> jvalue outcome" where
  "invoke_conference (NativeCreateConfFromParticipantList accountId participants) thiz g =
     returning (\<lambda>u. V) (nativeCreateConfFromParticipantList thiz accountId participants g)"
| "invoke_conference (NativeJoinParticipant accountId callId1 accountId2 callId2) thiz g =
     returning (\<lambda>u. V) (nativeJoinParticipant thiz accountId callId1 accountId2 callId2 g)"
| "invoke_conference (NativeAddParticipant accountId callId account2Id confId) thiz g =
     returning (\<lambda>u. V) (nativeAddParticipant thiz accountId callId account2Id confId g)"
| "invoke_conference (NativeHangUpConference accountId confId) thiz g =
     returning (\<lambda>u. V) (nativeHangUpConference thiz accountId confId g)"
| "invoke_conference (NativeGetConferenceDetails accountId confId) thiz g =
     returning L (nativeGetConferenceDetails thiz accountId confId g)"
| "invoke_conference (NativeGetParticipantList accountId confId) thiz g =
     returning L (nativeGetParticipantList thiz accountId confId g)"
| "invoke_conference (NativeGetConferenceInfos accountId confId) thiz g =
     returning L (nativeGetConferenceInfos thiz accountId confId g)"
| "invoke_conference (NativeSetConferenceLayout accountId confId layout) thiz g =
     returning (\<lambda>u. V) (nativeSetConferenceLayout thiz accountId confId layout g)"
| "invoke_conference (NativeMuteParticipant accountId confId peerId state) thiz g =
     returning (\<lambda>u. V) (nativeMuteParticipant thiz accountId confId peerId state g)"
| "invoke_conference (NativeHangupParticipant accountId confId accountUri deviceId) thiz g =
     returning (\<lambda>u. V) (nativeHangupParticipant thiz accountId confId accountUri deviceId g)"

primrec invoke_video :: "video_call \<Rightarrow> jobject \<Rightarrow> globals \<Rightarrow> jvalue outcome" where
  "invoke_video NativeGetVideoDeviceList thiz g =
     returning L (nativeGetVideoDeviceList thiz g)"
| "invoke_video NativeGetCurrentVideoDevice thiz g =
     returning L (nativeGetCurrentVideoDevice thiz g)"
| "invoke_video (NativeSetVideoDevice deviceId) thiz g =
     returning (\<lambda>u. V) (nativeSetVideoDevice thiz deviceId g)"
| "invoke_video NativeStartVideo thiz g =
     returning (\<lambda>u. V) (nativeStartVideo thiz g)"
| "invoke_video NativeStopVideo thiz g =
     returning (\<lambda>u. V) (nativeStopVideo thiz g)"
| "invoke_video (NativeSwitchInput accountId callId resource) thiz g =
     returning (\<lambda>u. V) (nativeSwitchInput thiz accountId callId resource g)"

primrec invoke_audio :: "audio_call \<Rightarrow> jobject \<Rightarrow> globals \<Rightarrow> jvalue outcome" where
  "invoke_audio NativeGetAudioOutputDeviceList thiz g =
     returning L (nativeGetAudioOutputDeviceList thiz g)"
| "invoke_audio NativeGetAudioInputDeviceList thiz g =
     returning L (nativeGetAudioInputDeviceList thiz g)"
| "invoke_audio (NativeSetAudioOutputDevice index) thiz g =
     returning (\<lambda>u. V) (nativeSetAudioOutputDevice thiz index g)"
| "invoke_audio (NativeSetAudioInputDevice index) thiz g =
     returning (\<lambda>u. V) (nativeSetAudioInputDevice thiz index g)"

primrec invoke :: "call \<Rightarrow> jobject \<Rightarrow> globals \<Rightarrow> jvalue outcome" where
  "invoke (Lifecycle c) thiz g = invoke_lifecycle c thiz g"
| "invoke (Account c) thiz g = invoke_account c thiz g"
| "invoke (Contacts c) thiz g = invoke_contacts c thiz g"
| "invoke (Conversations c) thiz g = invoke_conversations c thiz g"
| "invoke (Messaging c) thiz g = invoke_messaging c thiz g"
| "invoke (Calls c) thiz g = invoke_calls c thiz g"
| "invoke (Conference c) thiz g = invoke_conference c thiz g"
| "invoke (Video c) thiz g = invoke_video c thiz g"
| "invoke (Audio c) thiz g = invoke_audio c thiz g"

text \<open>The name of the entry point a call enters.\<close>

primrec entry_lifecycle :: "lifecycle_call \<Rightarrow> string" where
  "entry_lifecycle (NativeInit a0) = ''nativeInit''"
| "entry_lifecycle NativeStart = ''nativeStart''"
| "entry_lifecycle NativeStop = ''nativeStop''"
| "entry_lifecycle NativeIsRunning = ''nativeIsRunning''"

primrec entry_account :: "account_call \<Rightarrow> string" where
  "entry_account (NativeAddAccount a0) = ''nativeAddAccount''"
| "entry_account (NativeRemoveAccount a0) = ''nativeRemoveAccount''"
| "entry_account NativeGetAccountList = ''nativeGetAccountList''"
| "entry_account (NativeGetAccountDetails a0) = ''nativeGetAccountDetails''"
| "entry_account (NativeGetVolatileAccountDetails a0) = ''nativeGetVolatileAccountDetails''"
| "entry_account (NativeSetAccountDetails a0 a1) = ''nativeSetAccountDetails''"
| "entry_account (NativeSetAccountActive a0 a1) = ''nativeSetAccountActive''"
| "entry_account (NativeUpdateProfile a0 a1 a2 a3 a4) = ''nativeUpdateProfile''"
| "entry_account (NativeRegisterName a0 a1 a2 a3) = ''nativeRegisterName''"
| "entry_account (NativeLookupName a0 a1 a2) = ''nativeLookupName''"
| "entry_account (NativeLookupAddress a0 a1 a2) = ''nativeLookupAddress''"
| "entry_account (NativeExportToFile a0 a1 a2 a3) = ''nativeExportToFile''"

primrec entry_contacts :: "contacts_call \<Rightarrow> string" where
  "entry_contacts (NativeGetContacts a0) = ''nativeGetContacts''"
| "entry_contacts (NativeAddContact a0 a1) = ''nativeAddContact''"
| "entry_contacts (NativeRemoveContact a0 a1 a2) = ''nativeRemoveContact''"
| "entry_contacts (NativeGetContactDetails a0 a1) = ''nativeGetContactDetails''"
| "entry_contacts (NativeAcceptTrustRequest a0 a1) = ''nativeAcceptTrustRequest''"
| "entry_contacts (NativeDiscardTrustRequest a0 a1) = ''nativeDiscardTrustRequest''"
| "entry_contacts (NativeGetTrustRequests a0) = ''nativeGetTrustRequests''"

primrec entry_conversations :: "conversations_call \<Rightarrow> string" where
  "entry_conversations (NativeGetConversations a0) = ''nativeGetConversations''"
| "entry_conversations (NativeStartConversation a0) = ''nativeStartConversation''"
| "entry_conversations (NativeRemoveConversation a0 a1) = ''nativeRemoveConversation''"
| "entry_conversations (NativeConversationInfos a0 a1) = ''nativeConversationInfos''"
| "entry_conversations (NativeUpdateConversationInfos a0 a1 a2) = ''nativeUpdateConversationInfos''"
| "entry_conversations (NativeGetConversationMembers a0 a1) = ''nativeGetConversationMembers''"
| "entry_conversations (NativeAddConversationMember a0 a1 a2) = ''nativeAddConversationMember''"
| "entry_conversations (NativeRemoveConversationMember a0 a1 a2) = ''nativeRemoveConversationMember''"
| "entry_conversations (NativeAcceptConversationRequest a0 a1) = ''nativeAcceptConversationRequest''"
| "entry_conversations (NativeDeclineConversationRequest a0 a1) = ''nativeDeclineConversationRequest''"
| "entry_conversations (NativeGetConversationRequests a0) = ''nativeGetConversationRequests''"

primrec entry_messaging :: "messaging_call \<Rightarrow> string" where
  "entry_messaging (NativeSendMessage a0 a1 a2 a3 a4) = ''nativeSendMessage''"
| "entry_messaging (NativeLoadConversation a0 a1 a2 a3) = ''nativeLoadConversation''"
| "entry_messaging (NativeSetIsComposing a0 a1 a2) = ''nativeSetIsComposing''"
| "entry_messaging (NativeSetMessageDisplayed a0 a1 a2 a3) = ''nativeSetMessageDisplayed''"

primrec entry_calls :: "calls_call \<Rightarrow> string" where
  "entry_calls (NativePlaceCallWithMedia a0 a1 a2) = ''nativePlaceCallWithMedia''"
| "entry_calls (NativeAccept a0 a1) = ''nativeAccept''"
| "entry_calls (NativeAcceptWithMedia a0 a1 a2) = ''nativeAcceptWithMedia''"
| "entry_calls (NativeRefuse a0 a1) = ''nativeRefuse''"
| "entry_calls (NativeHangUp a0 a1) = ''nativeHangUp''"
| "entry_calls (NativeHold a0 a1) = ''nativeHold''"
| "entry_calls (NativeUnhold a0 a1) = ''nativeUnhold''"
| "entry_calls (NativeMuteLocalMedia a0 a1 a2 a3) = ''nativeMuteLocalMedia''"
| "entry_calls (NativeGetCallDetails a0 a1) = ''nativeGetCallDetails''"
| "entry_calls (NativeGetCallList a0) = ''nativeGetCallList''"

primrec entry_conference :: "conference_call \<Rightarrow> string" where
  "entry_conference (NativeCreateConfFromParticipantList a0 a1) = ''nativeCreateConfFromParticipantList''"
| "entry_conference (NativeJoinParticipant a0 a1 a2 a3) = ''nativeJoinParticipant''"
| "entry_conference (NativeAddParticipant a0 a1 a2 a3) = ''nativeAddParticipant''"
| "entry_conference (NativeHangUpConference a0 a1) = ''nativeHangUpConference''"
| "entry_conference (NativeGetConferenceDetails a0 a1) = ''nativeGetConferenceDetails''"
| "entry_conference (NativeGetParticipantList a0 a1) = ''nativeGetParticipantList''"
| "entry_conference (NativeGetConferenceInfos a0 a1) = ''nativeGetConferenceInfos''"
| "entry_conference (NativeSetConferenceLayout a0 a1 a2) = ''nativeSetConferenceLayout''"
| "entry_conference (NativeMuteParticipant a0 a1 a2 a3) = ''nativeMuteParticipant''"
| "entry_conference (NativeHangupParticipant a0 a1 a2 a3) = ''nativeHangupParticipant''"

primrec entry_video :: "video_call \<Rightarrow> string" where
  "entry_video NativeGetVideoDeviceList = ''nativeGetVideoDeviceList''"
| "entry_video NativeGetCurrentVideoDevice = ''nativeGetCurrentVideoDevice''"
| "entry_video (NativeSetVideoDevice a0) = ''nativeSetVideoDevice''"
| "entry_video NativeStartVideo = ''nativeStartVideo''"
| "entry_video NativeStopVideo = ''nativeStopVideo''"
| "entry_video (NativeSwitchInput a0 a1 a2) = ''nativeSwitchInput''"

primrec entry_audio :: "audio_call \<Rightarrow> string" where
  "entry_audio NativeGetAudioOutputDeviceList = ''nativeGetAudioOutputDeviceList''"
| "entry_audio NativeGetAudioInputDeviceList = ''nativeGetAudioInputDeviceList''"
| "entry_audio (NativeSetAudioOutputDevice a0) = ''nativeSetAudioOutputDevice''"
| "entry_audio (NativeSetAudioInputDevice a0) = ''nativeSetAudioInputDevice''"

primrec entry :: "call \<Rightarrow> string" where
  "entry (Lifecycle c) = entry_lifecycle c"
| "entry (Account c) = entry_account c"
| "entry (Contacts c) = entry_contacts c"
| "entry (Conversations c) = entry_conversations c"
| "entry (Messaging c) = entry_messaging c"
| "entry (Calls c) = entry_calls c"
| "entry (Conference c) = entry_conference c"
| "entry (Video c) = entry_video c"
| "entry (Audio c) = entry_audio c"

text \<open>The return type each entry point is declared with.\<close>

datatype jtype = T_void | T_jboolean | T_jint | T_jstring | T_jobject | T_jobjectArray

primrec return_type_lifecycle :: "lifecycle_call \<Rightarrow> jtype" where
  "return_type_lifecycle (NativeInit a0) = T_void"
| "return_type_lifecycle NativeStart = T_void"
| "return_type_lifecycle NativeStop = T_void"
| "return_type_lifecycle NativeIsRunning = T_jboolean"

primrec return_type_account :: "account_call \<Rightarrow> jtype" where
  "return_type_account (NativeAddAccount a0) = T_jstring"
| "return_type_account (NativeRemoveAccount a0) = T_void"
| "return_type_account NativeGetAccountList = T_jobjectArray"
| "return_type_account (NativeGetAccountDetails a0) = T_jobject"
| "return_type_account (NativeGetVolatileAccountDetails a0) = T_jobject"
| "return_type_account (NativeSetAccountDetails a0 a1) = T_void"
| "return_type_account (NativeSetAccountActive a0 a1) = T_void"
| "return_type_account (NativeUpdateProfile a0 a1 a2 a3 a4) = T_void"
| "return_type_account (NativeRegisterName a0 a1 a2 a3) = T_jboolean"
| "return_type_account (NativeLookupName a0 a1 a2) = T_jboolean"
| "return_type_account (NativeLookupAddress a0 a1 a2) = T_jboolean"
| "return_type_account (NativeExportToFile a0 a1 a2 a3) = T_jboolean"

primrec return_type_contacts :: "contacts_call \<Rightarrow> jtype" where
  "return_type_contacts (NativeGetContacts a0) = T_jobjectArray"
| "return_type_contacts (NativeAddContact a0 a1) = T_void"
| "return_type_contacts (NativeRemoveContact a0 a1 a2) = T_void"
| "return_type_contacts (NativeGetContactDetails a0 a1) = T_jobject"
| "return_type_contacts (NativeAcceptTrustRequest a0 a1) = T_void"
| "return_type_contacts (NativeDiscardTrustRequest a0 a1) = T_void"
| "return_type_contacts (NativeGetTrustRequests a0) = T_jobjectArray"

primrec return_type_conversations :: "conversations_call \<Rightarrow> jtype" where
  "return_type_conversations (NativeGetConversations a0) = T_jobjectArray"
| "return_type_conversations (NativeStartConversation a0) = T_jstring"
| "return_type_conversations (NativeRemoveConversation a0 a1) = T_jboolean"
| "return_type_conversations (NativeConversationInfos a0 a1) = T_jobject"
| "return_type_conversations (NativeUpdateConversationInfos a0 a1 a2) = T_void"
| "return_type_conversations (NativeGetConversationMembers a0 a1) = T_jobjectArray"
| "return_type_conversations (NativeAddConversationMember a0 a1 a2) = T_void"
| "return_type_conversations (NativeRemoveConversationMember a0 a1 a2) = T_void"
| "return_type_conversations (NativeAcceptConversationRequest a0 a1) = T_void"
| "return_type_conversations (NativeDeclineConversationRequest a0 a1) = T_void"
| "return_type_conversations (NativeGetConversationRequests a0) = T_jobjectArray"

primrec return_type_messaging :: "messaging_call \<Rightarrow> jtype" where
  "return_type_messaging (NativeSendMessage a0 a1 a2 a3 a4) = T_void"
| "return_type_messaging (NativeLoadConversation a0 a1 a2 a3) = T_jint"
| "return_type_messaging (NativeSetIsComposing a0 a1 a2) = T_void"
| "return_type_messaging (NativeSetMessageDisplayed a0 a1 a2 a3) = T_jboolean"

primrec return_type_calls :: "calls_call \<Rightarrow> jtype" where
  "return_type_calls (NativePlaceCallWithMedia a0 a1 a2) = T_jstring"
| "return_type_calls (NativeAccept a0 a1) = T_void"
| "return_type_calls (NativeAcceptWithMedia a0 a1 a2) = T_void"
| "return_type_calls (NativeRefuse a0 a1) = T_void"
| "return_type_calls (NativeHangUp a0 a1) = T_void"
| "return_type_calls (NativeHold a0 a1) = T_void"
| "return_type_calls (NativeUnhold a0 a1) = T_void"
| "return_type_calls (NativeMuteLocalMedia a0 a1 a2 a3) = T_void"
| "return_type_calls (NativeGetCallDetails a0 a1) = T_jobject"
| "return_type_calls (NativeGetCallList a0) = T_jobjectArray"

primrec return_type_conference :: "conference_call \<Rightarrow> jtype" where
  "return_type_conference (NativeCreateConfFromParticipantList a0 a1) = T_void"
| "return_type_conference (NativeJoinParticipant a0 a1 a2 a3) = T_void"
| "return_type_conference (NativeAddParticipant a0 a1 a2 a3) = T_void"
| "return_type_conference (NativeHangUpConference a0 a1) = T_void"
| "return_type_conference (NativeGetConferenceDetails a0 a1) = T_jobject"
| "return_type_conference (NativeGetParticipantList a0 a1) = T_jobjectArray"
| "return_type_conference (NativeGetConferenceInfos a0 a1) = T_jobjectArray"
| "return_type_conference (NativeSetConferenceLayout a0 a1 a2) = T_void"
| "return_type_conference (NativeMuteParticipant a0 a1 a2 a3) = T_void"
| "return_type_conference (NativeHangupParticipant a0 a1 a2 a3) = T_void"

primrec return_type_video :: "video_call \<Rightarrow> jtype" where
  "return_type_video NativeGetVideoDeviceList = T_jobjectArray"
| "return_type_video NativeGetCurrentVideoDevice = T_jstring"
| "return_type_video (NativeSetVideoDevice a0) = T_void"
| "return_type_video NativeStartVideo = T_void"
| "return_type_video NativeStopVideo = T_void"
| "return_type_video (NativeSwitchInput a0 a1 a2) = T_void"

primrec return_type_audio :: "audio_call \<Rightarrow> jtype" where
  "return_type_audio NativeGetAudioOutputDeviceList = T_jobjectArray"
| "return_type_audio NativeGetAudioInputDeviceList = T_jobjectArray"
| "return_type_audio (NativeSetAudioOutputDevice a0) = T_void"
| "return_type_audio (NativeSetAudioInputDevice a0) = T_void"

primrec return_type :: "call \<Rightarrow> jtype" where
  "return_type (Lifecycle c) = return_type_lifecycle c"
| "return_type (Account c) = return_type_account c"
| "return_type (Contacts c) = return_type_contacts c"
| "return_type (Conversations c) = return_type_conversations c"
| "return_type (Messaging c) = return_type_messaging c"
| "return_type (Calls c) = return_type_calls c"
| "return_type (Conference c) = return_type_conference c"
| "return_type (Video c) = return_type_video c"
| "return_type (Audio c) = return_type_audio c"

subsection \<open>Call families\<close>

text \<open>
  The families of the interface description, by the name of the entry point: the four
  lifecycle entry points; the queries (\<^verbatim>\<open>nativeGet...\<close>, \<^verbatim>\<open>nativeConversationInfos\<close> and
  \<^verbatim>\<open>nativeLoadConversation\<close>); the create-style calls, which make an account, a
  conversation, a call or a conference; and the mutating calls, which are all the others.
\<close>

datatype call_family = Lifecycle_family | Query_family | Create_family | Mutating_family

primrec family_lifecycle :: "lifecycle_call \<Rightarrow> call_family" where
  "family_lifecycle (NativeInit a0) = Lifecycle_family"
| "family_lifecycle NativeStart = Lifecycle_family"
| "family_lifecycle NativeStop = Lifecycle_family"
| "family_lifecycle NativeIsRunning = Lifecycle_family"

primrec family_account :: "account_call \<Rightarrow> call_family" where
  "family_account (NativeAddAccount a0) = Create_family"
| "family_account (NativeRemoveAccount a0) = Mutating_family"
| "family_account NativeGetAccountList = Query_family"
| "family_account (NativeGetAccountDetails a0) = Query_family"
| "family_account (NativeGetVolatileAccountDetails a0) = Query_family"
| "family_account (NativeSetAccountDetails a0 a1) = Mutating_family"
| "family_account (NativeSetAccountActive a0 a1) = Mutating_family"
| "family_account (NativeUpdateProfile a0 a1 a2 a3 a4) = Mutating_family"
| "family_account (NativeRegisterName a0 a1 a2 a3) = Mutating_family"
| "family_account (NativeLookupName a0 a1 a2) = Mutating_family"
| "family_account (NativeLookupAddress a0 a1 a2) = Mutating_family"
| "family_account (NativeExportToFile a0 a1 a2 a3) = Mutating_family"

primrec family_contacts :: "contacts_call \<Rightarrow> call_family" where
  "family_contacts (NativeGetContacts a0) = Query_family"
| "family_contacts (NativeAddContact a0 a1) = Mutating_family"
| "family_contacts (NativeRemoveContact a0 a1 a2) = Mutating_family"
| "family_contacts (NativeGetContactDetails a0 a1) = Query_family"
| "family_contacts (NativeAcceptTrustRequest a0 a1) = Mutating_family"
| "family_contacts (NativeDiscardTrustRequest a0 a1) = Mutating_family"
| "family_contacts (NativeGetTrustRequests a0) = Query_family"

primrec family_conversations :: "conversations_call \<Rightarrow> call_family" where
  "family_conversations (NativeGetConversations a0) = Query_family"
| "family_conversations (NativeStartConversation a0) = Create_family"
| "family_conversations (NativeRemoveConversation a0 a1) = Mutating_family"
| "family_conversations (NativeConversationInfos a0 a1) = Query_family"
| "family_conversations (NativeUpdateConversationInfos a0 a1 a2) = Mutating_family"
| "family_conversations (NativeGetConversationMembers a0 a1) = Query_family"
| "family_conversations (NativeAddConversationMember a0 a1 a2) = Mutating_family"
| "family_conversations (NativeRemoveConversationMember a0 a1 a2) = Mutating_family"
| "family_conversations (NativeAcceptConversationRequest a0 a1) = Mutating_family"
| "family_conversations (NativeDeclineConversationRequest a0 a1) = Mutating_family"
| "family_conversations (NativeGetConversationRequests a0) = Query_family"

primrec family_messaging :: "messaging_call \<Rightarrow> call_family" where
  "family_messaging (NativeSendMessage a0 a1 a2 a3 a4) = Mutating_family"
| "family_messaging (NativeLoadConversation a0 a1 a2 a3) = Query_family"
| "family_messaging (NativeSetIsComposing a0 a1 a2) = Mutating_family"
| "family_messaging (NativeSetMessageDisplayed a0 a1 a2 a3) = Mutating_family"

primrec family_calls :: "calls_call \<Rightarrow> call_family" where
  "family_calls (NativePlaceCallWithMedia a0 a1 a2) = Create_family"
| "family_calls (NativeAccept a0 a1) = Mutating_family"
| "family_calls (NativeAcceptWithMedia a0 a1 a2) = Mutating_family"
| "family_calls (NativeRefuse a0 a1) = Mutating_family"
| "family_calls (NativeHangUp a0 a1) = Mutating_family"
| "family_calls (NativeHold a0 a1) = Mutating_family"
| "family_calls (NativeUnhold a0 a1) = Mutating_family"
| "family_calls (NativeMuteLocalMedia a0 a1 a2 a3) = Mutating_family"
| "family_calls (NativeGetCallDetails a0 a1) = Query_family"
| "family_calls (NativeGetCallList a0) = Query_family"

primrec family_conference :: "conference_call \<Rightarrow> call_family" where
  "family_conference (NativeCreateConfFromParticipantList a0 a1) = Create_family"
| "family_conference (NativeJoinParticipant a0 a1 a2 a3) = Mutating_family"
| "family_conference (NativeAddParticipant a0 a1 a2 a3) = Mutating_family"
| "family_conference (NativeHangUpConference a0 a1) = Mutating_family"
| "family_conference (NativeGetConferenceDetails a0 a1) = Query_family"
| "family_conference (NativeGetParticipantList a0 a1) = Query_family"
| "family_conference (NativeGetConferenceInfos a0 a1) = Query_family"
| "family_conference (NativeSetConferenceLayout a0 a1 a2) = Mutating_family"
| "family_conference (NativeMuteParticipant a0 a1 a2 a3) = Mutating_family"
| "family_conference (NativeHangupParticipant a0 a1 a2 a3) = Mutating_family"

primrec family_video :: "video_call \<Rightarrow> call_family" where
  "family_video NativeGetVideoDeviceList = Query_family"
| "family_video NativeGetCurrentVideoDevice = Query_family"
| "family_video (NativeSetVideoDevice a0) = Mutating_family"
| "family_video NativeStartVideo = Mutating_family"
| "family_video NativeStopVideo = Mutating_family"
| "family_video (NativeSwitchInput a0 a1 a2) = Mutating_family"

primrec family_audio :: "audio_call \<Rightarrow> call_family" where
  "family_audio NativeGetAudioOutputDeviceList = Query_family"
| "family_audio NativeGetAudioInputDeviceList = Query_family"
| "family_audio (NativeSetAudioOutputDevice a0) = Mutating_family"
| "family_audio (NativeSetAudioInputDevice a0) = Mutating_family"

primrec family :: "call \<Rightarrow> call_family" where
  "family (Lifecycle c) = family_lifecycle c"
| "family (Account c) = family_account c"
| "family (Contacts c) = family_contacts c"
| "family (Conversations c) = family_conversations c"
| "family (Messaging c) = family_messaging c"
| "family (Calls c) = family_calls c"
| "family (Conference c) = family_conference c"
| "family (Video c) = family_video c"
| "family (Audio c) = family_audio c"

subsection \<open>Sequences of calls\<close>

text \<open>
  The managed side makes its calls one after the other. Each call starts from the
  globals the call before it left. A fault ends the sequence.
\<close>

fun run :: "call list \<Rightarrow> jobject \<Rightarrow> globals \<Rightarrow> fault + globals" where
  "run [] thiz g = Inr g"
| "run (c # cs) thiz g =
     (case result (invoke c thiz g) of
        Inl e \<Rightarrow> Inl e
      | Inr v \<Rightarrow> run cs thiz (globals_after (invoke c thiz g)))"

text \<open>
  The calls of \<^verbatim>\<open>nativeStart\<close> and \<^verbatim>\<open>nativeStop\<close> in a sequence, in order, and whether the
  most recent of them is a \<^verbatim>\<open>nativeStart\<close>.
\<close>

definition start_stop_calls :: "call list \<Rightarrow> call list" where
  "start_stop_calls cs =
     filter (\<lambda>c. c = Lifecycle NativeStart \<or> c = Lifecycle NativeStop) cs"

definition most_recent_is_start :: "call list \<Rightarrow> bool" where
  "most_recent_is_start cs =
     (case rev (start_stop_calls cs) of
        [] \<Rightarrow> False
      | c # earlier \<Rightarrow> c = Lifecycle NativeStart)"

text \<open>What a well-formed empty collection and a well-formed empty mapping are.\<close>

fun empty_collection :: "jvalue \<Rightarrow> bool" where
  "empty_collection (L (JObjectArray c xs)) = (xs = [])"
| "empty_collection v = False"

fun empty_mapping :: "jvalue \<Rightarrow> bool" where
  "empty_mapping (L (JHashMap m)) = (m = [])"
| "empty_mapping v = False"

text \<open>
  \<^verbatim>\<open>nativeInit\<close> is the one entry point that uses an argument: it reads the bytes of
  \<^verbatim>\<open>dataPath\<close>. The predicate holds of every call but a \<^verbatim>\<open>nativeInit\<close> whose
  \<^verbatim>\<open>dataPath\<close> is not a string object.
\<close>

fun is_string :: "jobject \<Rightarrow> bool" where
  "is_string (JString bytes) = True"
| "is_string obj = False"

fun dataPath_is_string :: "call \<Rightarrow> bool" where
  "dataPath_is_string (Lifecycle (NativeInit dataPath)) = is_string dataPath"
| "dataPath_is_string c = True"

section \<open>Properties\<close>

subsection \<open>Unfolding the entry points\<close>

lemmas lifecycle_entry_points =
  nativeInit_def nativeStart_def nativeStop_def nativeIsRunning_def

lemmas account_entry_points =
  nativeAddAccount_def nativeRemoveAccount_def nativeGetAccountList_def
  nativeGetAccountDetails_def nativeGetVolatileAccountDetails_def
  nativeSetAccountDetails_def nativeSetAccountActive_def nativeUpdateProfile_def
  nativeRegisterName_def nativeLookupName_def nativeLookupAddress_def
  nativeExportToFile_def

lemmas contacts_entry_points =
  nativeGetContacts_def nativeAddContact_def nativeRemoveContact_def
  nativeGetContactDetails_def nativeAcceptTrustRequest_def
  nativeDiscardTrustRequest_def nativeGetTrustRequests_def

lemmas conversations_entry_points =
  nativeGetConversations_def nativeStartConversation_def nativeRemoveConversation_def
  nativeConversationInfos_def nativeUpdateConversationInfos_def
  nativeGetConversationMembers_def nativeAddConversationMember_def
  nativeRemoveConversationMember_def nativeAcceptConversationRequest_def
  nativeDeclineConversationRequest_def nativeGetConversationRequests_def

lemmas messaging_entry_points =
  nativeSendMessage_def nativeLoadConversation_def nativeSetIsComposing_def
  nativeSetMessageDisplayed_def

lemmas calls_entry_points =
  nativePlaceCallWithMedia_def nativeAccept_def nativeAcceptWithMedia_def
  nativeRefuse_def nativeHangUp_def nativeHold_def nativeUnhold_def
  nativeMuteLocalMedia_def nativeGetCallDetails_def nativeGetCallList_def

lemmas conference_entry_points =
  nativeCreateConfFromParticipantList_def nativeJoinParticipant_def
  nativeAddParticipant_def nativeHangUpConference_def nativeGetConferenceDetails_def
  nativeGetParticipantList_def nativeGetConferenceInfos_def
  nativeSetConferenceLayout_def nativeMuteParticipant_def nativeHangupParticipant_def

lemmas video_entry_points =
  nativeGetVideoDeviceList_def nativeGetCurrentVideoDevice_def nativeSetVideoDevice_def
  nativeStartVideo_def nativeStopVideo_def nativeSwitchInput_def

lemmas audio_entry_points =
  nativeGetAudioOutputDeviceList_def nativeGetAudioInputDeviceList_def
  nativeSetAudioOutputDevice_def nativeSetAudioInputDevice_def

lemmas entry_points =
  lifecycle_entry_points account_entry_points contacts_entry_points conversations_entry_points messaging_entry_points
  calls_entry_points conference_entry_points video_entry_points audio_entry_points

lemmas jni_functions =
  bind_jni_def FindClass_def GetMethodID_def NewObject_def NewObjectArray_def
  SetObjectArrayElement_def NewStringUTF_def GetStringUTFChars_def
  ReleaseStringUTFChars_def boot_classes_def

subsection \<open>What each call returns and leaves behind\<close>

text \<open>
  The value of every call, with the JNI functions evaluated: the class lookups succeed,
  the constructor of \<^verbatim>\<open>java.util.HashMap\<close> is found, and every array store is in range
  and of the element type.
\<close>

lemma invoke_lifecycle_result:
  "result (invoke_lifecycle (NativeInit dataPath) thiz g) =
     (case dataPath of
        JString bytes \<Rightarrow> Inr V
      | _ \<Rightarrow> Inl (UndefinedBehaviour ''GetStringUTFChars: not a string''))"
  "result (invoke_lifecycle NativeStart thiz g) =
     Inr V"
  "result (invoke_lifecycle NativeStop thiz g) =
     Inr V"
  "result (invoke_lifecycle NativeIsRunning thiz g) =
     Inr (Z (if g_daemonRunning g then JNI_TRUE else JNI_FALSE))"
  by (simp_all add: returning_def lifecycle_entry_points jni_functions split: jobject.splits)

lemma invoke_account_result:
  "result (invoke_account (NativeAddAccount details) thiz g) =
     Inr (L (JString ''stub-account-id''))"
  "result (invoke_account (NativeRemoveAccount accountId) thiz g) =
     Inr V"
  "result (invoke_account NativeGetAccountList thiz g) =
     Inr (L (JObjectArray ''java/lang/String'' []))"
  "result (invoke_account (NativeGetAccountDetails accountId) thiz g) =
     Inr (L (JHashMap []))"
  "result (invoke_account (NativeGetVolatileAccountDetails accountId) thiz g) =
     Inr (L (JHashMap []))"
  "result (invoke_account (NativeSetAccountDetails accountId details) thiz g) =
     Inr V"
  "result (invoke_account (NativeSetAccountActive accountId active) thiz g) =
     Inr V"
  "result (invoke_account (NativeUpdateProfile accountId displayName avatar fileType flag) thiz g) =
     Inr V"
  "result (invoke_account (NativeRegisterName accountId name scheme password) thiz g) =
     Inr (Z JNI_FALSE)"
  "result (invoke_account (NativeLookupName accountId nameserver name) thiz g) =
     Inr (Z JNI_FALSE)"
  "result (invoke_account (NativeLookupAddress accountId nameserver address) thiz g) =
     Inr (Z JNI_FALSE)"
  "result (invoke_account (NativeExportToFile accountId destPath scheme password) thiz g) =
     Inr (Z JNI_FALSE)"
  by (simp_all add: returning_def account_entry_points jni_functions)

lemma invoke_contacts_result:
  "result (invoke_contacts (NativeGetContacts accountId) thiz g) =
     Inr (L (JObjectArray ''java/util/HashMap'' []))"
  "result (invoke_contacts (NativeAddContact accountId uri) thiz g) =
     Inr V"
  "result (invoke_contacts (NativeRemoveContact accountId uri ban) thiz g) =
     Inr V"
  "result (invoke_contacts (NativeGetContactDetails accountId uri) thiz g) =
     Inr (L (JHashMap []))"
  "result (invoke_contacts (NativeAcceptTrustRequest accountId from_uri) thiz g) =
     Inr V"
  "result (invoke_contacts (NativeDiscardTrustRequest accountId from_uri) thiz g) =
     Inr V"
  "result (invoke_contacts (NativeGetTrustRequests accountId) thiz g) =
     Inr (L (JObjectArray ''java/util/HashMap'' []))"
  by (simp_all add: returning_def contacts_entry_points jni_functions)

lemma invoke_conversations_result:
  "result (invoke_conversations (NativeGetConversations accountId) thiz g) =
     Inr (L (JObjectArray ''java/lang/String'' []))"
  "result (invoke_conversations (NativeStartConversation accountId) thiz g) =
     Inr (L (JString ''stub-conversation-id''))"
  "result (invoke_conversations (NativeRemoveConversation accountId conversationId) thiz g) =
     Inr (Z JNI_TRUE)"
  "result (invoke_conversations (NativeConversationInfos accountId conversationId) thiz g) =
     Inr (L (JHashMap []))"
  "result (invoke_conversations (NativeUpdateConversationInfos accountId conversationId infos) thiz g) =
     Inr V"
  "result (invoke_conversations (NativeGetConversationMembers accountId conversationId) thiz g) =
     Inr (L (JObjectArray ''java/util/HashMap'' []))"
  "result (invoke_conversations (NativeAddConversationMember accountId conversationId contactUri) thiz g) =
     Inr V"
  "result (invoke_conversations (NativeRemoveConversationMember accountId conversationId contactUri) thiz g) =
     Inr V"
  "result (invoke_conversations (NativeAcceptConversationRequest accountId conversationId) thiz g) =
     Inr V"
  "result (invoke_conversations (NativeDeclineConversationRequest accountId conversationId) thiz g) =
     Inr V"
  "result (invoke_conversations (NativeGetConversationRequests accountId) thiz g) =
     Inr (L (JObjectArray ''java/util/HashMap'' []))"
  by (simp_all add: returning_def conversations_entry_points jni_functions)

lemma invoke_messaging_result:
  "result (invoke_messaging (NativeSendMessage accountId conversationId message replyTo flag) thiz g) =
     Inr V"
  "result (invoke_messaging (NativeLoadConversation accountId conversationId fromMessage n) thiz g) =
     Inr (I 0)"
  "result (invoke_messaging (NativeSetIsComposing accountId conversationUri isWriting) thiz g) =
     Inr V"
  "result (invoke_messaging (NativeSetMessageDisplayed accountId conversationUri messageId status) thiz g) =
     Inr (Z JNI_TRUE)"
  by (simp_all add: returning_def messaging_entry_points jni_functions)

lemma invoke_calls_result:
  "result (invoke_calls (NativePlaceCallWithMedia accountId to mediaList) thiz g) =
     Inr (L (JString ''stub-call-id''))"
  "result (invoke_calls (NativeAccept accountId callId) thiz g) =
     Inr V"
  "result (invoke_calls (NativeAcceptWithMedia accountId callId mediaList) thiz g) =
     Inr V"
  "result (invoke_calls (NativeRefuse accountId callId) thiz g) =
     Inr V"
  "result (invoke_calls (NativeHangUp accountId callId) thiz g) =
     Inr V"
  "result (invoke_calls (NativeHold accountId callId) thiz g) =
     Inr V"
  "result (invoke_calls (NativeUnhold accountId callId) thiz g) =
     Inr V"
  "result (invoke_calls (NativeMuteLocalMedia accountId callId mediaType mute) thiz g) =
     Inr V"
  "result (invoke_calls (NativeGetCallDetails accountId callId) thiz g) =
     Inr (L (JHashMap []))"
  "result (invoke_calls (NativeGetCallList accountId) thiz g) =
     Inr (L (JObjectArray ''java/lang/String'' []))"
  by (simp_all add: returning_def calls_entry_points jni_functions)

lemma invoke_conference_result:
  "result (invoke_conference (NativeCreateConfFromParticipantList accountId participants) thiz g) =
     Inr V"
  "result (invoke_conference (NativeJoinParticipant accountId callId1 accountId2 callId2) thiz g) =
     Inr V"
  "result (invoke_conference (NativeAddParticipant accountId callId account2Id confId) thiz g) =
     Inr V"
  "result (invoke_conference (NativeHangUpConference accountId confId) thiz g) =
     Inr V"
  "result (invoke_conference (NativeGetConferenceDetails accountId confId) thiz g) =
     Inr (L (JHashMap []))"
  "result (invoke_conference (NativeGetParticipantList accountId confId) thiz g) =
     Inr (L (JObjectArray ''java/lang/String'' []))"
  "result (invoke_conference (NativeGetConferenceInfos accountId confId) thiz g) =
     Inr (L (JObjectArray ''java/util/HashMap'' []))"
  "result (invoke_conference (NativeSetConferenceLayout accountId confId layout) thiz g) =
     Inr V"
  "result (invoke_conference (NativeMuteParticipant accountId confId peerId state) thiz g) =
     Inr V"
  "result (invoke_conference (NativeHangupParticipant accountId confId accountUri deviceId) thiz g) =
     Inr V"
  by (simp_all add: returning_def conference_entry_points jni_functions)

lemma invoke_video_result:
  "result (invoke_video NativeGetVideoDeviceList thiz g) =
     Inr (L (JObjectArray ''java/lang/String'' [JString ''camera://0'', JString ''camera://1'']))"
  "result (invoke_video NativeGetCurrentVideoDevice thiz g) =
     Inr (L (JString ''camera://0''))"
  "result (invoke_video (NativeSetVideoDevice deviceId) thiz g) =
     Inr V"
  "result (invoke_video NativeStartVideo thiz g) =
     Inr V"
  "result (invoke_video NativeStopVideo thiz g) =
     Inr V"
  "result (invoke_video (NativeSwitchInput accountId callId resource) thiz g) =
     Inr V"
  by (simp_all add: returning_def video_entry_points jni_functions numeral_2_eq_2)

lemma invoke_audio_result:
  "result (invoke_audio NativeGetAudioOutputDeviceList thiz g) =
     Inr (L (JObjectArray ''java/lang/String'' [JString ''Speaker'', JString ''Earpiece'']))"
  "result (invoke_audio NativeGetAudioInputDeviceList thiz g) =
     Inr (L (JObjectArray ''java/lang/String'' [JString ''Microphone'']))"
  "result (invoke_audio (NativeSetAudioOutputDevice index) thiz g) =
     Inr V"
  "result (invoke_audio (NativeSetAudioInputDevice index) thiz g) =
     Inr V"
  by (simp_all add: returning_def audio_entry_points jni_functions numeral_2_eq_2)

text \<open>Only \<^verbatim>\<open>nativeStart\<close> and \<^verbatim>\<open>nativeStop\<close> assign to the flag.\<close>

lemma invoke_lifecycle_globals:
  "globals_after (invoke_lifecycle (NativeInit dataPath) thiz g) = g"
  "globals_after (invoke_lifecycle NativeStart thiz g) = g\<lparr>g_daemonRunning := True\<rparr>"
  "globals_after (invoke_lifecycle NativeStop thiz g) = g\<lparr>g_daemonRunning := False\<rparr>"
  "globals_after (invoke_lifecycle NativeIsRunning thiz g) = g"
  by (simp_all add: returning_def lifecycle_entry_points split: sum.splits)

lemma invoke_account_globals:
  "globals_after (invoke_account c thiz g) = g"
  by (cases c) (simp_all add: returning_def account_entry_points)

lemma invoke_contacts_globals:
  "globals_after (invoke_contacts c thiz g) = g"
  by (cases c) (simp_all add: returning_def contacts_entry_points)

lemma invoke_conversations_globals:
  "globals_after (invoke_conversations c thiz g) = g"
  by (cases c) (simp_all add: returning_def conversations_entry_points)

lemma invoke_messaging_globals:
  "globals_after (invoke_messaging c thiz g) = g"
  by (cases c) (simp_all add: returning_def messaging_entry_points)

lemma invoke_calls_globals:
  "globals_after (invoke_calls c thiz g) = g"
  by (cases c) (simp_all add: returning_def calls_entry_points)

lemma invoke_conference_globals:
  "globals_after (invoke_conference c thiz g) = g"
  by (cases c) (simp_all add: returning_def conference_entry_points)

lemma invoke_video_globals:
  "globals_after (invoke_video c thiz g) = g"
  by (cases c) (simp_all add: returning_def video_entry_points)

lemma invoke_audio_globals:
  "globals_after (invoke_audio c thiz g) = g"
  by (cases c) (simp_all add: returning_def audio_entry_points)

lemmas invoke_result =
  invoke_lifecycle_result invoke_account_result invoke_contacts_result
  invoke_conversations_result invoke_messaging_result invoke_calls_result
  invoke_conference_result invoke_video_result invoke_audio_result

lemmas invoke_globals =
  invoke_lifecycle_globals invoke_account_globals invoke_contacts_globals
  invoke_conversations_globals invoke_messaging_globals invoke_calls_globals
  invoke_conference_globals invoke_video_globals invoke_audio_globals

text \<open>From here on a call is evaluated by these equations.\<close>

declare
  invoke_lifecycle.simps [simp del]
  invoke_account.simps [simp del]
  invoke_contacts.simps [simp del]
  invoke_conversations.simps [simp del]
  invoke_messaging.simps [simp del]
  invoke_calls.simps [simp del]
  invoke_conference.simps [simp del]
  invoke_video.simps [simp del]
  invoke_audio.simps [simp del]

subsection \<open>The value of a call depends on its entry point only\<close>

text \<open>
  Within a group, two calls that enter the same entry point return the same value,
  whatever their arguments and receivers; \<^verbatim>\<open>nativeIsRunning\<close> reads the flag and
  \<^verbatim>\<open>nativeInit\<close> uses its argument, so the lifecycle group is stated apart.
\<close>

lemma result_fixed_lifecycle:
  "entry_lifecycle a = entry_lifecycle b \<Longrightarrow> entry_lifecycle a \<noteq> ''nativeInit''
   \<Longrightarrow> g_daemonRunning g1 = g_daemonRunning g2
   \<Longrightarrow> result (invoke_lifecycle a thiz1 g1) = result (invoke_lifecycle b thiz2 g2)"
  by (cases a; cases b; simp add: invoke_lifecycle_result)

lemma result_fixed_account:
  "entry_account a = entry_account b
   \<Longrightarrow> result (invoke_account a thiz1 g1) = result (invoke_account b thiz2 g2)"
  by (cases a; cases b; simp add: invoke_account_result)

lemma result_fixed_contacts:
  "entry_contacts a = entry_contacts b
   \<Longrightarrow> result (invoke_contacts a thiz1 g1) = result (invoke_contacts b thiz2 g2)"
  by (cases a; cases b; simp add: invoke_contacts_result)

lemma result_fixed_conversations:
  "entry_conversations a = entry_conversations b
   \<Longrightarrow> result (invoke_conversations a thiz1 g1) = result (invoke_conversations b thiz2 g2)"
  by (cases a; cases b; simp add: invoke_conversations_result)

lemma result_fixed_messaging:
  "entry_messaging a = entry_messaging b
   \<Longrightarrow> result (invoke_messaging a thiz1 g1) = result (invoke_messaging b thiz2 g2)"
  by (cases a; cases b; simp add: invoke_messaging_result)

lemma result_fixed_calls:
  "entry_calls a = entry_calls b
   \<Longrightarrow> result (invoke_calls a thiz1 g1) = result (invoke_calls b thiz2 g2)"
  by (cases a; cases b; simp add: invoke_calls_result)

lemma result_fixed_conference:
  "entry_conference a = entry_conference b
   \<Longrightarrow> result (invoke_conference a thiz1 g1) = result (invoke_conference b thiz2 g2)"
  by (cases a; cases b; simp add: invoke_conference_result)

lemma result_fixed_video:
  "entry_video a = entry_video b
   \<Longrightarrow> result (invoke_video a thiz1 g1) = result (invoke_video b thiz2 g2)"
  by (cases a; cases b; simp add: invoke_video_result)

lemma result_fixed_audio:
  "entry_audio a = entry_audio b
   \<Longrightarrow> result (invoke_audio a thiz1 g1) = result (invoke_audio b thiz2 g2)"
  by (cases a; cases b; simp add: invoke_audio_result)

text \<open>No entry point has the name of an entry point of another group.\<close>

lemma entry_lifecycle_account:
  "entry_lifecycle a \<noteq> entry_account b"
  by (cases a; cases b) simp_all

lemma entry_lifecycle_contacts:
  "entry_lifecycle a \<noteq> entry_contacts b"
  by (cases a; cases b) simp_all

lemma entry_lifecycle_conversations:
  "entry_lifecycle a \<noteq> entry_conversations b"
  by (cases a; cases b) simp_all

lemma entry_lifecycle_messaging:
  "entry_lifecycle a \<noteq> entry_messaging b"
  by (cases a; cases b) simp_all

lemma entry_lifecycle_calls:
  "entry_lifecycle a \<noteq> entry_calls b"
  by (cases a; cases b) simp_all

lemma entry_lifecycle_conference:
  "entry_lifecycle a \<noteq> entry_conference b"
  by (cases a; cases b) simp_all

lemma entry_lifecycle_video:
  "entry_lifecycle a \<noteq> entry_video b"
  by (cases a; cases b) simp_all

lemma entry_lifecycle_audio:
  "entry_lifecycle a \<noteq> entry_audio b"
  by (cases a; cases b) simp_all

lemma entry_account_contacts:
  "entry_account a \<noteq> entry_contacts b"
  by (cases a; cases b) simp_all

lemma entry_account_conversations:
  "entry_account a \<noteq> entry_conversations b"
  by (cases a; cases b) simp_all

lemma entry_account_messaging:
  "entry_account a \<noteq> entry_messaging b"
  by (cases a; cases b) simp_all

lemma entry_account_calls:
  "entry_account a \<noteq> entry_calls b"
  by (cases a; cases b) simp_all

lemma entry_account_conference:
  "entry_account a \<noteq> entry_conference b"
  by (cases a; cases b) simp_all

lemma entry_account_video:
  "entry_account a \<noteq> entry_video b"
  by (cases a; cases b) simp_all

lemma entry_account_audio:
  "entry_account a \<noteq> entry_audio b"
  by (cases a; cases b) simp_all

lemma entry_contacts_conversations:
  "entry_contacts a \<noteq> entry_conversations b"
  by (cases a; cases b) simp_all

lemma entry_contacts_messaging:
  "entry_contacts a \<noteq> entry_messaging b"
  by (cases a; cases b) simp_all

lemma entry_contacts_calls:
  "entry_contacts a \<noteq> entry_calls b"
  by (cases a; cases b) simp_all

lemma entry_contacts_conference:
  "entry_contacts a \<noteq> entry_conference b"
  by (cases a; cases b) simp_all

lemma entry_contacts_video:
  "entry_contacts a \<noteq> entry_video b"
  by (cases a; cases b) simp_all

lemma entry_contacts_audio:
  "entry_contacts a \<noteq> entry_audio b"
  by (cases a; cases b) simp_all

lemma entry_conversations_messaging:
  "entry_conversations a \<noteq> entry_messaging b"
  by (cases a; cases b) simp_all

lemma entry_conversations_calls:
  "entry_conversations a \<noteq> entry_calls b"
  by (cases a; cases b) simp_all

lemma entry_conversations_conference:
  "entry_conversations a \<noteq> entry_conference b"
  by (cases a; cases b) simp_all

lemma entry_conversations_video:
  "entry_conversations a \<noteq> entry_video b"
  by (cases a; cases b) simp_all

lemma entry_conversations_audio:
  "entry_conversations a \<noteq> entry_audio b"
  by (cases a; cases b) simp_all

lemma entry_messaging_calls:
  "entry_messaging a \<noteq> entry_calls b"
  by (cases a; cases b) simp_all

lemma entry_messaging_conference:
  "entry_messaging a \<noteq> entry_conference b"
  by (cases a; cases b) simp_all

lemma entry_messaging_video:
  "entry_messaging a \<noteq> entry_video b"
  by (cases a; cases b) simp_all

lemma entry_messaging_audio:
  "entry_messaging a \<noteq> entry_audio b"
  by (cases a; cases b) simp_all

lemma entry_calls_conference:
  "entry_calls a \<noteq> entry_conference b"
  by (cases a; cases b) simp_all

lemma entry_calls_video:
  "entry_calls a \<noteq> entry_video b"
  by (cases a; cases b) simp_all

lemma entry_calls_audio:
  "entry_calls a \<noteq> entry_audio b"
  by (cases a; cases b) simp_all

lemma entry_conference_video:
  "entry_conference a \<noteq> entry_video b"
  by (cases a; cases b) simp_all

lemma entry_conference_audio:
  "entry_conference a \<noteq> entry_audio b"
  by (cases a; cases b) simp_all

lemma entry_video_audio:
  "entry_video a \<noteq> entry_audio b"
  by (cases a; cases b) simp_all

lemmas entry_other_group =
  entry_lifecycle_account entry_lifecycle_account [THEN not_sym]
  entry_lifecycle_contacts entry_lifecycle_contacts [THEN not_sym]
  entry_lifecycle_conversations entry_lifecycle_conversations [THEN not_sym]
  entry_lifecycle_messaging entry_lifecycle_messaging [THEN not_sym]
  entry_lifecycle_calls entry_lifecycle_calls [THEN not_sym]
  entry_lifecycle_conference entry_lifecycle_conference [THEN not_sym]
  entry_lifecycle_video entry_lifecycle_video [THEN not_sym]
  entry_lifecycle_audio entry_lifecycle_audio [THEN not_sym]
  entry_account_contacts entry_account_contacts [THEN not_sym]
  entry_account_conversations entry_account_conversations [THEN not_sym]
  entry_account_messaging entry_account_messaging [THEN not_sym]
  entry_account_calls entry_account_calls [THEN not_sym]
  entry_account_conference entry_account_conference [THEN not_sym]
  entry_account_video entry_account_video [THEN not_sym]
  entry_account_audio entry_account_audio [THEN not_sym]
  entry_contacts_conversations entry_contacts_conversations [THEN not_sym]
  entry_contacts_messaging entry_contacts_messaging [THEN not_sym]
  entry_contacts_calls entry_contacts_calls [THEN not_sym]
  entry_contacts_conference entry_contacts_conference [THEN not_sym]
  entry_contacts_video entry_contacts_video [THEN not_sym]
  entry_contacts_audio entry_contacts_audio [THEN not_sym]
  entry_conversations_messaging entry_conversations_messaging [THEN not_sym]
  entry_conversations_calls entry_conversations_calls [THEN not_sym]
  entry_conversations_conference entry_conversations_conference [THEN not_sym]
  entry_conversations_video entry_conversations_video [THEN not_sym]
  entry_conversations_audio entry_conversations_audio [THEN not_sym]
  entry_messaging_calls entry_messaging_calls [THEN not_sym]
  entry_messaging_conference entry_messaging_conference [THEN not_sym]
  entry_messaging_video entry_messaging_video [THEN not_sym]
  entry_messaging_audio entry_messaging_audio [THEN not_sym]
  entry_calls_conference entry_calls_conference [THEN not_sym]
  entry_calls_video entry_calls_video [THEN not_sym]
  entry_calls_audio entry_calls_audio [THEN not_sym]
  entry_conference_video entry_conference_video [THEN not_sym]
  entry_conference_audio entry_conference_audio [THEN not_sym]
  entry_video_audio entry_video_audio [THEN not_sym]

text \<open>
  Hence two calls that enter the same entry point return the same value, from globals
  with the same flag; \<^verbatim>\<open>nativeInit\<close> apart.
\<close>

lemma result_fixed:
  assumes "entry c1 = entry c2" and "entry c1 \<noteq> ''nativeInit''"
    and "g_daemonRunning g1 = g_daemonRunning g2"
  shows "result (invoke c1 thiz1 g1) = result (invoke c2 thiz2 g2)"
  using assms
  by (cases c1; cases c2)
     (simp_all add: entry_other_group result_fixed_lifecycle
        result_fixed_account result_fixed_contacts result_fixed_conversations
        result_fixed_messaging result_fixed_calls result_fixed_conference
        result_fixed_video result_fixed_audio)

subsection \<open>Success, and the flag after a call\<close>

lemma invoke_succeeds:
  assumes "dataPath_is_string c"
  shows "\<exists>v. result (invoke c thiz g) = Inr v"
proof (cases c)
  case (Lifecycle x)
  with assms show ?thesis
    by (cases x; simp add: invoke_result; rename_tac p; case_tac p; simp)
qed (rename_tac x, case_tac x, simp_all add: invoke_result)+

lemma globals_after_invoke:
  "globals_after (invoke c thiz g) =
     (if c = Lifecycle NativeStart then g\<lparr>g_daemonRunning := True\<rparr>
      else if c = Lifecycle NativeStop then g\<lparr>g_daemonRunning := False\<rparr>
      else g)"
proof (cases c)
  case (Lifecycle x)
  then show ?thesis
    by (cases x) (simp_all add: invoke_globals)
qed (simp_all add: invoke_globals)

lemma run_succeeds:
  "list_all dataPath_is_string cs \<Longrightarrow> \<exists>g'. run cs thiz g = Inr g'"
proof (induction cs arbitrary: g)
  case Nil
  show ?case by simp
next
  case (Cons c cs)
  from Cons.prems have "dataPath_is_string c" and rest: "list_all dataPath_is_string cs"
    by simp_all
  then obtain v where "result (invoke c thiz g) = Inr v"
    using invoke_succeeds by blast
  with Cons.IH [OF rest] show ?case
    by simp
qed

lemma start_stop_calls_Cons:
  "start_stop_calls (c # cs) =
     (if c = Lifecycle NativeStart \<or> c = Lifecycle NativeStop then c # start_stop_calls cs
      else start_stop_calls cs)"
  by (simp add: start_stop_calls_def)

lemma run_flag:
  "run cs thiz g0 = Inr g \<Longrightarrow>
     g_daemonRunning g =
       (case rev (start_stop_calls cs) of
          [] \<Rightarrow> g_daemonRunning g0
        | c # earlier \<Rightarrow> c = Lifecycle NativeStart)"
proof (induction cs arbitrary: g0)
  case Nil
  then show ?case
    by (simp add: start_stop_calls_def)
next
  case (Cons c cs)
  let ?g1 = "globals_after (invoke c thiz g0)"
  from Cons.prems have "run cs thiz ?g1 = Inr g"
    by (simp split: sum.splits)
  from Cons.IH [OF this]
  have IH: "g_daemonRunning g =
       (case rev (start_stop_calls cs) of
          [] \<Rightarrow> g_daemonRunning ?g1
        | c # earlier \<Rightarrow> c = Lifecycle NativeStart)" .
  show ?case
  proof (cases "rev (start_stop_calls cs)")
    case Nil
    with IH show ?thesis
      by (simp add: start_stop_calls_Cons globals_after_invoke)
  next
    case (Cons d ds)
    with IH show ?thesis
      by (simp add: start_stop_calls_Cons)
  qed
qed

lemma nativeIsRunning_result:
  "result (nativeIsRunning thiz g) =
     Inr (if g_daemonRunning g then JNI_TRUE else JNI_FALSE)"
  by (simp add: nativeIsRunning_def)

lemma JNI_TRUE_not_FALSE: "JNI_TRUE \<noteq> JNI_FALSE"
  by (simp add: JNI_TRUE_def JNI_FALSE_def)

section \<open>The claims\<close>

subsection \<open>C1: the lifecycle flag\<close>

text \<open>
  C1. The flag is a two-state machine. \<^verbatim>\<open>nativeIsRunning\<close> returns false on the initial
  globals, and \<^verbatim>\<open>nativeStop\<close> before any \<^verbatim>\<open>nativeStart\<close> returns normally. A sequence of
  calls in which every \<^verbatim>\<open>nativeInit\<close> is given a string runs to its end; and after any
  sequence that has run to its end, \<^verbatim>\<open>nativeIsRunning\<close> returns true exactly when the
  most recent of the \<^verbatim>\<open>nativeStart\<close> and \<^verbatim>\<open>nativeStop\<close> calls of the sequence is a
  \<^verbatim>\<open>nativeStart\<close>, and false otherwise.
\<close>

theorem lifecycle_flag_two_state:
  "result (nativeIsRunning thiz initial_globals) = Inr JNI_FALSE
   \<and> result (nativeStop thiz initial_globals) = Inr ()
   \<and> (list_all dataPath_is_string cs \<longrightarrow> (\<exists>g'. run cs thiz initial_globals = Inr g'))
   \<and> (run cs thiz initial_globals = Inr g \<longrightarrow>
         (result (nativeIsRunning thiz' g) = Inr JNI_TRUE) = most_recent_is_start cs
       \<and> (result (nativeIsRunning thiz' g) = Inr JNI_FALSE) = (\<not> most_recent_is_start cs))"
proof -
  have flag: "g_daemonRunning g = most_recent_is_start cs"
    if "run cs thiz initial_globals = Inr g"
    using run_flag [OF that]
    by (simp add: most_recent_is_start_def initial_globals_def split: list.splits)
  show ?thesis
    using flag run_succeeds [of cs thiz initial_globals] JNI_TRUE_not_FALSE
    by (auto simp add: nativeIsRunning_result nativeStop_def initial_globals_def)
qed

theorem lifecycle_flag_two_state_witness:
  "list_all dataPath_is_string
     [Lifecycle NativeStop, Lifecycle (NativeInit (JString ''/data'')),
      Lifecycle NativeStart, Account NativeGetAccountList]
   \<and> run [Lifecycle NativeStop, Lifecycle (NativeInit (JString ''/data'')),
           Lifecycle NativeStart, Account NativeGetAccountList] JNull initial_globals
        = Inr \<lparr>g_daemonRunning = True\<rparr>
   \<and> most_recent_is_start
        [Lifecycle NativeStop, Lifecycle (NativeInit (JString ''/data'')),
         Lifecycle NativeStart, Account NativeGetAccountList]
   \<and> result (nativeIsRunning JNull \<lparr>g_daemonRunning = True\<rparr>) = Inr JNI_TRUE"
  using lifecycle_flag_two_state
    [of JNull "[Lifecycle NativeStop, Lifecycle (NativeInit (JString ''/data'')),
          Lifecycle NativeStart, Account NativeGetAccountList]"
        "\<lparr>g_daemonRunning = True\<rparr>" JNull]
  by (simp add: most_recent_is_start_def start_stop_calls_def invoke_result
      invoke_globals nativeIsRunning_result initial_globals_def)

subsection \<open>C2: what the queries return\<close>

text \<open>
  C2, as stated, fails: \<^verbatim>\<open>nativeGetVideoDeviceList\<close> is a query and returns an array of
  two elements, which is neither an empty collection nor an empty mapping.
\<close>

theorem query_returns_empty_counterexample:
  "family (Video NativeGetVideoDeviceList) = Query_family
   \<and> \<not> (\<exists>v. result (invoke (Video NativeGetVideoDeviceList) JNull initial_globals) = Inr v
            \<and> (empty_collection v \<or> empty_mapping v))"
  by (simp add: invoke_result)

lemma query_result:
  assumes "family c = Query_family"
  shows "result (invoke c thiz g) = result (invoke c thiz g')"
    and "entry c \<noteq> ''nativeInit''"
    and "\<exists>v. result (invoke c thiz g) = Inr v \<and> v \<noteq> V \<and> v \<noteq> L JNull
      \<and> (entry c \<notin> {''nativeGetVideoDeviceList'', ''nativeGetAudioOutputDeviceList'',
                      ''nativeGetAudioInputDeviceList'', ''nativeGetCurrentVideoDevice'',
                      ''nativeLoadConversation''}
           \<longrightarrow> empty_collection v \<or> empty_mapping v)
      \<and> (entry c = ''nativeGetVideoDeviceList''
           \<longrightarrow> v = L (JObjectArray ''java/lang/String''
                        [JString ''camera://0'', JString ''camera://1'']))
      \<and> (entry c = ''nativeGetAudioOutputDeviceList''
           \<longrightarrow> v = L (JObjectArray ''java/lang/String''
                        [JString ''Speaker'', JString ''Earpiece'']))
      \<and> (entry c = ''nativeGetAudioInputDeviceList''
           \<longrightarrow> v = L (JObjectArray ''java/lang/String'' [JString ''Microphone'']))
      \<and> (entry c = ''nativeGetCurrentVideoDevice'' \<longrightarrow> v = L (JString ''camera://0''))
      \<and> (entry c = ''nativeLoadConversation'' \<longrightarrow> v = I 0)"
  using assms
  by (cases c; rename_tac x; case_tac x; simp add: invoke_result)+

text \<open>
  C2, amended. Every query returns a value that is not null and is the same for every
  call of that entry point, whatever the arguments, the receiver and the flag. The value
  is a well-formed empty collection or empty mapping unless the entry point is one of
  five: \<^verbatim>\<open>nativeGetVideoDeviceList\<close> always returns the array of \<^verbatim>\<open>"camera://0"\<close> and
  \<^verbatim>\<open>"camera://1"\<close>, \<^verbatim>\<open>nativeGetAudioOutputDeviceList\<close> the array of \<^verbatim>\<open>"Speaker"\<close> and
  \<^verbatim>\<open>"Earpiece"\<close>, \<^verbatim>\<open>nativeGetAudioInputDeviceList\<close> the array of \<^verbatim>\<open>"Microphone"\<close>,
  \<^verbatim>\<open>nativeGetCurrentVideoDevice\<close> the string \<^verbatim>\<open>"camera://0"\<close> and
  \<^verbatim>\<open>nativeLoadConversation\<close> the integer \<^verbatim>\<open>0\<close>.
\<close>

theorem query_returns_well_formed:
  assumes "family c = Query_family" and "entry c' = entry c"
  shows "\<exists>v. result (invoke c thiz g) = Inr v \<and> result (invoke c' thiz' g') = Inr v
    \<and> v \<noteq> V \<and> v \<noteq> L JNull
    \<and> (entry c \<notin> {''nativeGetVideoDeviceList'', ''nativeGetAudioOutputDeviceList'',
                    ''nativeGetAudioInputDeviceList'', ''nativeGetCurrentVideoDevice'',
                    ''nativeLoadConversation''}
         \<longrightarrow> empty_collection v \<or> empty_mapping v)
    \<and> (entry c = ''nativeGetVideoDeviceList''
         \<longrightarrow> v = L (JObjectArray ''java/lang/String''
                      [JString ''camera://0'', JString ''camera://1'']))
    \<and> (entry c = ''nativeGetAudioOutputDeviceList''
         \<longrightarrow> v = L (JObjectArray ''java/lang/String''
                      [JString ''Speaker'', JString ''Earpiece'']))
    \<and> (entry c = ''nativeGetAudioInputDeviceList''
         \<longrightarrow> v = L (JObjectArray ''java/lang/String'' [JString ''Microphone'']))
    \<and> (entry c = ''nativeGetCurrentVideoDevice'' \<longrightarrow> v = L (JString ''camera://0''))
    \<and> (entry c = ''nativeLoadConversation'' \<longrightarrow> v = I 0)"
proof -
  note q = query_result [OF assms(1)]
  from q(2) have "entry c' \<noteq> ''nativeInit''"
    using assms(2) by simp
  with assms(2) have "result (invoke c' thiz' g') = result (invoke c thiz g')"
    by (rule result_fixed) (rule refl)
  also have "\<dots> = result (invoke c thiz g)"
    by (rule q(1))
  finally have same: "result (invoke c' thiz' g') = result (invoke c thiz g)" .
  from q(3) [of thiz g] same show ?thesis
    by auto
qed

theorem query_returns_well_formed_witness:
  "family (Contacts (NativeGetContactDetails (JString ''acct'') (JString ''uri''))) = Query_family
   \<and> entry (Contacts (NativeGetContactDetails JNull (JString '''')))
     = entry (Contacts (NativeGetContactDetails (JString ''acct'') (JString ''uri'')))
   \<and> result (invoke (Contacts (NativeGetContactDetails (JString ''acct'') (JString ''uri'')))
               JNull \<lparr>g_daemonRunning = False\<rparr>) = Inr (L (JHashMap []))
   \<and> result (invoke (Contacts (NativeGetContactDetails JNull (JString '''')))
               (JString ''bridge'') \<lparr>g_daemonRunning = True\<rparr>) = Inr (L (JHashMap []))
   \<and> empty_mapping (L (JHashMap []))"
  using query_returns_well_formed
    [of "Contacts (NativeGetContactDetails (JString ''acct'') (JString ''uri''))"
        "Contacts (NativeGetContactDetails JNull (JString ''''))"
        JNull "\<lparr>g_daemonRunning = False\<rparr>" "JString ''bridge''"
        "\<lparr>g_daemonRunning = True\<rparr>"]
  by (simp add: invoke_result)

subsection \<open>C3: what the create-style calls return\<close>

text \<open>
  C3, as stated, fails: \<^verbatim>\<open>nativeCreateConfFromParticipantList\<close> is declared \<^verbatim>\<open>void\<close> and
  returns no identifier.
\<close>

theorem create_returns_identifier_counterexample:
  "family (Conference (NativeCreateConfFromParticipantList JNull JNull)) = Create_family
   \<and> \<not> (\<exists>s. s \<noteq> []
            \<and> result (invoke (Conference (NativeCreateConfFromParticipantList JNull JNull))
                        JNull initial_globals) = Inr (L (JString s)))"
  by (simp add: invoke_result)

text \<open>
  C3, amended. For all inputs \<^verbatim>\<open>nativeAddAccount\<close> returns \<^verbatim>\<open>"stub-account-id"\<close>,
  \<^verbatim>\<open>nativeStartConversation\<close> returns \<^verbatim>\<open>"stub-conversation-id"\<close> and
  \<^verbatim>\<open>nativePlaceCallWithMedia\<close> returns \<^verbatim>\<open>"stub-call-id"\<close>; the fourth create-style entry
  point, \<^verbatim>\<open>nativeCreateConfFromParticipantList\<close>, returns nothing. There is no other
  create-style entry point.
\<close>

theorem create_returns_placeholder:
  assumes "family c = Create_family"
  shows "(entry c = ''nativeAddAccount''
          \<and> result (invoke c thiz g) = Inr (L (JString ''stub-account-id'')))
    \<or> (entry c = ''nativeStartConversation''
          \<and> result (invoke c thiz g) = Inr (L (JString ''stub-conversation-id'')))
    \<or> (entry c = ''nativePlaceCallWithMedia''
          \<and> result (invoke c thiz g) = Inr (L (JString ''stub-call-id'')))
    \<or> (entry c = ''nativeCreateConfFromParticipantList''
          \<and> result (invoke c thiz g) = Inr V)"
  using assms
  by (cases c; rename_tac x; case_tac x; simp add: invoke_result)

theorem create_returns_placeholder_witness:
  "family (Calls (NativePlaceCallWithMedia (JString ''acct'') (JString '''') JNull))
     = Create_family
   \<and> result (invoke (Calls (NativePlaceCallWithMedia (JString ''acct'') (JString '''') JNull))
               JNull initial_globals) = Inr (L (JString ''stub-call-id''))"
  using create_returns_placeholder
    [of "Calls (NativePlaceCallWithMedia (JString ''acct'') (JString '''') JNull)"
        JNull initial_globals]
  by (simp add: invoke_result)

subsection \<open>C4: every call completes\<close>

text \<open>
  C4, as stated, fails: \<^verbatim>\<open>nativeInit\<close> hands its \<^verbatim>\<open>dataPath\<close> to \<^verbatim>\<open>GetStringUTFChars\<close>
  unchecked, and a null \<^verbatim>\<open>dataPath\<close> is outside the contract of that function.
\<close>

theorem call_completes_counterexample:
  "\<not> (\<exists>v. result (invoke (Lifecycle (NativeInit JNull)) JNull initial_globals) = Inr v)"
  by (simp add: invoke_result)

text \<open>
  C4, amended. Every call of every entry point completes with a value, whatever its
  arguments (strings, empty or not, null references, booleans, integers), provided the
  \<^verbatim>\<open>dataPath\<close> of \<^verbatim>\<open>nativeInit\<close> is a string: no JNI function is used outside its
  contract and no exception is left pending.
\<close>

theorem call_completes:
  assumes "dataPath_is_string c"
  shows "\<exists>v. result (invoke c thiz g) = Inr v"
  using assms by (rule invoke_succeeds)

theorem call_completes_witness:
  "dataPath_is_string (Lifecycle (NativeInit (JString '''')))
   \<and> result (invoke (Lifecycle (NativeInit (JString ''''))) JNull initial_globals) = Inr V"
  using call_completes [of "Lifecycle (NativeInit (JString ''''))" JNull initial_globals]
  by (simp add: invoke_result)

subsection \<open>C5: returned values carry nothing of the arguments\<close>

lemma value_returning_not_nativeInit:
  "return_type c \<noteq> T_void \<Longrightarrow> entry c \<noteq> ''nativeInit''"
  by (cases c; rename_tac x; case_tac x; simp)

lemma value_returning_result:
  "return_type c \<noteq> T_void \<Longrightarrow> \<exists>v. result (invoke c thiz g) = Inr v \<and> v \<noteq> V"
  by (cases c; rename_tac x; case_tac x; simp add: invoke_result)

text \<open>
  C5. Two calls of one value-returning entry point, with any two argument lists and any
  two receivers, from the same globals, return the same value.
\<close>

theorem value_independent_of_arguments:
  assumes "entry c1 = entry c2" and "return_type c1 \<noteq> T_void"
  shows "\<exists>v. v \<noteq> V \<and> result (invoke c1 thiz1 g) = Inr v
    \<and> result (invoke c2 thiz2 g) = Inr v"
proof -
  obtain v where v: "result (invoke c1 thiz1 g) = Inr v" "v \<noteq> V"
    using value_returning_result [OF assms(2)] by blast
  have "entry c1 \<noteq> ''nativeInit''"
    using assms(2) by (rule value_returning_not_nativeInit)
  with assms(1) have "result (invoke c1 thiz1 g) = result (invoke c2 thiz2 g)"
    by (rule result_fixed) (rule refl)
  with v show ?thesis
    by simp
qed

theorem value_independent_of_arguments_witness:
  "entry (Account (NativeGetAccountDetails (JString ''alice'')))
     = entry (Account (NativeGetAccountDetails (JString ''bob'')))
   \<and> return_type (Account (NativeGetAccountDetails (JString ''alice''))) \<noteq> T_void
   \<and> result (invoke (Account (NativeGetAccountDetails (JString ''alice''))) JNull
               initial_globals) = Inr (L (JHashMap []))
   \<and> result (invoke (Account (NativeGetAccountDetails (JString ''bob''))) JNull
               initial_globals) = Inr (L (JHashMap []))"
  using value_independent_of_arguments
    [of "Account (NativeGetAccountDetails (JString ''alice''))"
        "Account (NativeGetAccountDetails (JString ''bob''))" JNull initial_globals JNull]
  by (simp add: invoke_result)

subsection \<open>C6: the flag is the only state, and only start and stop write it\<close>

text \<open>
  C6. The globals are the flag and nothing else. Every call other than \<^verbatim>\<open>nativeStart\<close>
  and \<^verbatim>\<open>nativeStop\<close> leaves them as they were, \<^verbatim>\<open>nativeInit\<close> with any path included.
\<close>

theorem only_start_stop_change_globals:
  assumes "c \<noteq> Lifecycle NativeStart" and "c \<noteq> Lifecycle NativeStop"
  shows "globals_after (invoke c thiz g) = g
    \<and> globals_after (nativeInit thiz dataPath g) = g
    \<and> g = \<lparr>g_daemonRunning = g_daemonRunning g\<rparr>"
  using assms
  by (simp add: globals_after_invoke nativeInit_def split: sum.splits)

theorem only_start_stop_change_globals_witness:
  "Lifecycle (NativeInit (JString ''/data'')) \<noteq> Lifecycle NativeStart
   \<and> Lifecycle (NativeInit (JString ''/data'')) \<noteq> Lifecycle NativeStop
   \<and> globals_after (invoke (Lifecycle (NativeInit (JString ''/data''))) JNull
        \<lparr>g_daemonRunning = True\<rparr>) = \<lparr>g_daemonRunning = True\<rparr>"
  using only_start_stop_change_globals
    [of "Lifecycle (NativeInit (JString ''/data''))" JNull "\<lparr>g_daemonRunning = True\<rparr>"]
  by simp

subsection \<open>C7: the mutating calls\<close>

lemma mutating_result:
  assumes "family c = Mutating_family"
  shows "result (invoke c thiz g) \<in> {Inr V, Inr (Z JNI_FALSE), Inr (Z JNI_TRUE)}"
    and "result (invoke c thiz g) = result (invoke c thiz g')"
    and "globals_after (invoke c thiz g) = g"
    and "entry c \<noteq> ''nativeInit''"
  using assms
  by (cases c; rename_tac x; case_tac x; simp add: invoke_result invoke_globals)+

text \<open>
  C7. A mutating call takes any arguments, leaves the globals as they were, and returns
  nothing or a boolean; every call of the same entry point returns the same, whatever
  its arguments, its receiver and the globals.
\<close>

theorem mutating_call_no_effect:
  assumes "family c = Mutating_family" and "entry c' = entry c"
  shows "globals_after (invoke c thiz g) = g
    \<and> result (invoke c thiz g) \<in> {Inr V, Inr (Z JNI_FALSE), Inr (Z JNI_TRUE)}
    \<and> result (invoke c' thiz' g') = result (invoke c thiz g)"
proof -
  note m = mutating_result [OF assms(1)]
  from m(4) have "entry c' \<noteq> ''nativeInit''"
    using assms(2) by simp
  with assms(2) have "result (invoke c' thiz' g') = result (invoke c thiz g')"
    by (rule result_fixed) (rule refl)
  also have "\<dots> = result (invoke c thiz g)"
    by (rule m(2))
  finally have "result (invoke c' thiz' g') = result (invoke c thiz g)" .
  with m(1) [of thiz g] m(3) [of thiz g] show ?thesis
    by blast
qed

theorem mutating_call_no_effect_witness:
  "family (Conversations (NativeRemoveConversation (JString ''a'') (JString ''c'')))
     = Mutating_family
   \<and> entry (Conversations (NativeRemoveConversation JNull (JString '''')))
     = entry (Conversations (NativeRemoveConversation (JString ''a'') (JString ''c'')))
   \<and> globals_after (invoke (Conversations (NativeRemoveConversation (JString ''a'')
        (JString ''c''))) JNull \<lparr>g_daemonRunning = True\<rparr>) = \<lparr>g_daemonRunning = True\<rparr>
   \<and> result (invoke (Conversations (NativeRemoveConversation JNull (JString '''')))
        JNull \<lparr>g_daemonRunning = False\<rparr>) = Inr (Z JNI_TRUE)
   \<and> result (invoke (Conversations (NativeRemoveConversation (JString ''a'')
        (JString ''c''))) JNull \<lparr>g_daemonRunning = True\<rparr>) = Inr (Z JNI_TRUE)"
  using mutating_call_no_effect
    [of "Conversations (NativeRemoveConversation (JString ''a'') (JString ''c''))"
        "Conversations (NativeRemoveConversation JNull (JString ''''))"
        JNull "\<lparr>g_daemonRunning = True\<rparr>" JNull "\<lparr>g_daemonRunning = False\<rparr>"]
  by (simp add: invoke_result)

subsection \<open>C9: the device lists\<close>

text \<open>
  C9. On every call \<^verbatim>\<open>nativeGetVideoDeviceList\<close> returns the array of \<^verbatim>\<open>"camera://0"\<close>
  and \<^verbatim>\<open>"camera://1"\<close>, \<^verbatim>\<open>nativeGetAudioOutputDeviceList\<close> the array of \<^verbatim>\<open>"Speaker"\<close> and
  \<^verbatim>\<open>"Earpiece"\<close>, \<^verbatim>\<open>nativeGetAudioInputDeviceList\<close> the array of \<^verbatim>\<open>"Microphone"\<close>, and
  \<^verbatim>\<open>nativeGetCurrentVideoDevice\<close> the string \<^verbatim>\<open>"camera://0"\<close>, which is an element of
  the video device list.
\<close>

theorem device_lists_fixed:
  "result (nativeGetVideoDeviceList thiz g) =
     Inr (JObjectArray ''java/lang/String'' [JString ''camera://0'', JString ''camera://1''])
   \<and> result (nativeGetAudioOutputDeviceList thiz g) =
     Inr (JObjectArray ''java/lang/String'' [JString ''Speaker'', JString ''Earpiece''])
   \<and> result (nativeGetAudioInputDeviceList thiz g) =
     Inr (JObjectArray ''java/lang/String'' [JString ''Microphone''])
   \<and> result (nativeGetCurrentVideoDevice thiz g) = Inr (JString ''camera://0'')
   \<and> (\<exists>c xs d. result (nativeGetVideoDeviceList thiz g) = Inr (JObjectArray c xs)
         \<and> result (nativeGetCurrentVideoDevice thiz' g') = Inr d \<and> d \<in> set xs)"
  by (simp add: nativeGetVideoDeviceList_def nativeGetAudioOutputDeviceList_def
      nativeGetAudioInputDeviceList_def nativeGetCurrentVideoDevice_def jni_functions
      numeral_2_eq_2)

subsection \<open>C10: the fixed booleans\<close>

text \<open>
  C10. For every input \<^verbatim>\<open>nativeRegisterName\<close>, \<^verbatim>\<open>nativeLookupName\<close>,
  \<^verbatim>\<open>nativeLookupAddress\<close> and \<^verbatim>\<open>nativeExportToFile\<close> return false, and
  \<^verbatim>\<open>nativeRemoveConversation\<close> and \<^verbatim>\<open>nativeSetMessageDisplayed\<close> return true; the two
  constants differ.
\<close>

theorem fixed_booleans:
  "result (nativeRegisterName thiz accountId name scheme password g) = Inr JNI_FALSE
   \<and> result (nativeLookupName thiz accountId nameserver name g) = Inr JNI_FALSE
   \<and> result (nativeLookupAddress thiz accountId nameserver address g) = Inr JNI_FALSE
   \<and> result (nativeExportToFile thiz accountId destPath scheme password g) = Inr JNI_FALSE
   \<and> result (nativeRemoveConversation thiz accountId conversationId g) = Inr JNI_TRUE
   \<and> result (nativeSetMessageDisplayed thiz accountId conversationUri messageId status g)
       = Inr JNI_TRUE
   \<and> JNI_FALSE \<noteq> JNI_TRUE"
  by (simp add: nativeRegisterName_def nativeLookupName_def nativeLookupAddress_def
      nativeExportToFile_def nativeRemoveConversation_def nativeSetMessageDisplayed_def
      JNI_TRUE_def JNI_FALSE_def)


end
